theory Spec2Isabelle
  imports Main "HOL-Library.Sublist" "HOL-Library.Char_ord" "HOL-Library.List_Lexorder"
begin

section \<open>Platform values\<close>

text \<open>
  A JavaScript string is a sequence of UTF-16 code units. It is modelled as a
  \<^typ>\<open>string\<close> whose characters are the code units below 256, ordered by their
  code (\<open>Char_ord\<close>); lists of them are ordered lexicographically
  (\<open>List_Lexorder\<close>), which is the order of \<^verbatim>\<open>Array.prototype.sort\<close> without a
  comparator.

  A JavaScript number is a double. The numbers of this development are
  non-negative integers and are modelled as \<^typ>\<open>nat\<close>; the model is exact
  as long as every value stays at or below \<^verbatim>\<open>Number.MAX_SAFE_INTEGER\<close>.
\<close>

definition MAX_SAFE_INTEGER :: nat where
  "MAX_SAFE_INTEGER = 9007199254740991"

datatype js_error =
    Error string
  | SyntaxError
  | TypeError

definition is_digit :: "char \<Rightarrow> bool" where
  "is_digit c \<longleftrightarrow> CHR ''0'' \<le> c \<and> c \<le> CHR ''9''"

definition is_nonzero_digit :: "char \<Rightarrow> bool" where
  "is_nonzero_digit c \<longleftrightarrow> CHR ''1'' \<le> c \<and> c \<le> CHR ''9''"

definition digit_char :: "nat \<Rightarrow> char" where
  "digit_char d = char_of (48 + d)"

definition digit_val :: "char \<Rightarrow> nat" where
  "digit_val c = of_char c - 48"

text \<open>\<^verbatim>\<open>Number.prototype.toString\<close> on a non-negative integer: its decimal numeral.\<close>

fun Number_toString :: "nat \<Rightarrow> string" where
  "Number_toString n =
     (if n < 10 then [digit_char n]
      else Number_toString (n div 10) @ [digit_char (n mod 10)])"

text \<open>\<^verbatim>\<open>Number.parseInt(ds, 10)\<close> on a string of decimal digits.\<close>

definition parseInt :: "string \<Rightarrow> nat" where
  "parseInt ds = foldl (\<lambda>acc c. 10 * acc + digit_val c) 0 ds"

text \<open>
  \<^verbatim>\<open>String.prototype.trim\<close>: the white space and line terminators among the code
  units below 256 are TAB, LF, VT, FF, CR, SPACE and NBSP.
\<close>

definition js_whitespace :: "char \<Rightarrow> bool" where
  "js_whitespace c \<longleftrightarrow>
     c \<in> {CHR 0x09, CHR 0x0A, CHR 0x0B, CHR 0x0C, CHR 0x0D, CHR 0x20, CHR 0xA0}"

definition trim :: "string \<Rightarrow> string" where
  "trim s = rev (dropWhile js_whitespace (rev (dropWhile js_whitespace s)))"

text \<open>A template literal renders \<^verbatim>\<open>undefined\<close> as the text \<^verbatim>\<open>undefined\<close>.\<close>

definition template_string :: "string option \<Rightarrow> string" where
  "template_string v = (case v of None \<Rightarrow> ''undefined'' | Some s \<Rightarrow> s)"

section \<open>Common.ts: Version\<close>

record Version =
  major :: nat
  minor :: nat
  patch :: nat

text \<open>
  The sub-pattern \<^verbatim>\<open>0|[1-9]\d*\<close> at the start of \<open>s\<close>: every way it can match,
  as (matched text, remaining text), in the order in which the backtracking
  matcher tries them: the alternative \<^verbatim>\<open>0\<close> first, then \<^verbatim>\<open>[1-9]\d*\<close> from the
  longest run of digits down to the shortest.
\<close>

definition number_alts :: "string \<Rightarrow> (string \<times> string) list" where
  "number_alts s =
     (case s of
        [] \<Rightarrow> []
      | c # r \<Rightarrow>
          (if c = CHR ''0'' then [([c], r)] else []) @
          (if is_nonzero_digit c
           then map (\<lambda>k. (c # take k r, drop k r))
                  (rev [0..<Suc (length (takeWhile is_digit r))])
           else []))"

text \<open>Whether the text \<open>r\<close> begins with a decimal digit.\<close>

definition starts_with_digit :: "string \<Rightarrow> bool" where
  "starts_with_digit r \<longleftrightarrow> (case r of [] \<Rightarrow> False | c # _ \<Rightarrow> is_digit c)"

text \<open>
  The third group \<^verbatim>\<open>(\k<Separator>(?<Patch>0|[1-9]\d*))?$\<close> at \<open>r\<close>. The
  back-reference matches the captured separator, and the empty string when the
  group \<^verbatim>\<open>Separator\<close> did not take part in the match. The group is tried before
  it is skipped.
\<close>

definition patch_group ::
  "char option \<Rightarrow> string \<Rightarrow> (string option) list" where
  "patch_group separator r =
     (let after_backreference =
            (case separator of
               None \<Rightarrow> [r]
             | Some sep \<Rightarrow> (case r of [] \<Rightarrow> [] | c # r' \<Rightarrow> if c = sep then [r'] else []))
      in concat (map (\<lambda>r'. concat (map (\<lambda>(p, rest). if rest = [] then [Some p] else [])
                                      (number_alts r')))
                     after_backreference)
         @ (if r = [] then [None] else []))"

text \<open>
  The second group \<^verbatim>\<open>((?<Separator>[-.])(?<Minor>0|[1-9]\d*))?\<close> at \<open>r\<close>, followed
  by the rest of the pattern: tried first, then skipped.
\<close>

definition minor_group ::
  "string \<Rightarrow> (string option \<times> string option) list" where
  "minor_group r =
     (case r of
        [] \<Rightarrow> []
      | sep # r' \<Rightarrow>
          if sep = CHR ''-'' \<or> sep = CHR ''.''
          then concat (map (\<lambda>(m, r''). map (\<lambda>p. (Some m, p)) (patch_group (Some sep) r''))
                           (number_alts r'))
          else [])
     @ map (\<lambda>p. (None, p)) (patch_group None r)"

text \<open>
  \<^verbatim>\<open>versionRegex.exec\<close>: the groups \<^verbatim>\<open>Major\<close>, \<^verbatim>\<open>Minor\<close> and \<^verbatim>\<open>Patch\<close> of the first
  match in backtracking order, or \<open>None\<close> for \<^verbatim>\<open>null\<close>.
\<close>

definition versionRegex_exec ::
  "string \<Rightarrow> (string \<times> string option \<times> string option) option" where
  "versionRegex_exec s =
     (case concat (map (\<lambda>(mj, r). map (\<lambda>(mn, p). (mj, mn, p)) (minor_group r))
                       (number_alts s)) of
        [] \<Rightarrow> None
      | m # _ \<Rightarrow> Some m)"

definition group_number :: "string option \<Rightarrow> nat" where
  "group_number g = (case g of None \<Rightarrow> 0 | Some ds \<Rightarrow> parseInt ds)"

text \<open>\<^verbatim>\<open>Version.from\<close>; \<open>None\<close> is \<^verbatim>\<open>null\<close>. The warning it logs is not modelled.\<close>

definition "from" :: "string \<Rightarrow> Version option" where
  "from input =
     (let trimmedInput = trim input in
      case versionRegex_exec trimmedInput of
        None \<Rightarrow> None
      | Some (Major, Minor, Patch) \<Rightarrow>
          Some \<lparr>major = group_number (Some Major),
                minor = group_number Minor,
                patch = group_number Patch\<rparr>)"

text \<open>\<^verbatim>\<open>Version.prototype.toString\<close>.\<close>

definition toString :: "Version \<Rightarrow> string" where
  "toString v =
     Number_toString (major v) @ ''.'' @ Number_toString (minor v) @ ''.'' @
     Number_toString (patch v)"

text \<open>An argument of \<^verbatim>\<open>compare\<close> is a \<^verbatim>\<open>Version\<close> object or a string.\<close>

datatype version_input = Obj Version | Str string

definition input_toString :: "version_input \<Rightarrow> string" where
  "input_toString v = (case v of Obj x \<Rightarrow> toString x | Str s \<Rightarrow> s)"

definition input_version :: "version_input \<Rightarrow> Version option" where
  "input_version v = (case v of Obj x \<Rightarrow> Some x | Str s \<Rightarrow> from s)"

text \<open>
  \<^verbatim>\<open>Version.compare\<close>. The parameter \<open>localeCompare\<close> is the platform's
  \<^verbatim>\<open>a.localeCompare(b, undefined, {sensitivity: 'accent'})\<close>, whose result depends
  on the host's collation data.
\<close>

definition compare ::
  "(string \<Rightarrow> string \<Rightarrow> int) \<Rightarrow> version_input \<Rightarrow> version_input \<Rightarrow> js_error + int" where
  "compare localeCompare v1 v2 =
     (let version1 = input_version v1; version2 = input_version v2 in
      case (version1, version2) of
        (None, None) \<Rightarrow>
          if localeCompare (input_toString v1) (input_toString v2) = 0 then Inr 0
          else Inl (Error ''Comparing 2 codename versions is not supported.'')
      | (None, Some _) \<Rightarrow> Inr 1
      | (Some _, None) \<Rightarrow> Inr (- 1)
      | (Some x1, Some x2) \<Rightarrow>
          (let num1 = major x1 * 100 + minor x1 * 10 + patch x1;
               num2 = major x2 * 100 + minor x2 * 10 + patch x2
           in if num1 = num2 then Inr 0 else if num1 < num2 then Inr (- 1) else Inr 1))"

definition same ::
  "(string \<Rightarrow> string \<Rightarrow> int) \<Rightarrow> version_input \<Rightarrow> version_input \<Rightarrow> js_error + bool" where
  "same localeCompare v1 v2 = map_sum id (\<lambda>c. c = 0) (compare localeCompare v1 v2)"

definition sameOrNewer ::
  "(string \<Rightarrow> string \<Rightarrow> int) \<Rightarrow> version_input \<Rightarrow> version_input \<Rightarrow> js_error + bool" where
  "sameOrNewer localeCompare v1 v2 = map_sum id (\<lambda>c. c \<ge> 0) (compare localeCompare v1 v2)"

subsection \<open>Comparators used in the examples\<close>

text \<open>
  Letter case among the code units below 256: \<^verbatim>\<open>A\<close> to \<^verbatim>\<open>Z\<close> (65 to 90) and
  the accented capitals 192 to 222 (without the multiplication sign, 215) are
  the capitals of the letters 32 code units above them.
\<close>

definition lower_case :: "char \<Rightarrow> char" where
  "lower_case c =
     (let n = (of_char c :: nat) in
      if (65 \<le> n \<and> n \<le> 90) \<or> (192 \<le> n \<and> n \<le> 222 \<and> n \<noteq> 215)
      then char_of (n + 32) else c)"

text \<open>The base letter of an accented small letter, by its code.\<close>

definition strip_accent :: "char \<Rightarrow> char" where
  "strip_accent c =
     (let n = (of_char c :: nat) in
      if 224 \<le> n \<and> n \<le> 229 then CHR ''a''
      else if n = 231 then CHR ''c''
      else if 232 \<le> n \<and> n \<le> 235 then CHR ''e''
      else if 236 \<le> n \<and> n \<le> 239 then CHR ''i''
      else if n = 241 then CHR ''n''
      else if (242 \<le> n \<and> n \<le> 246) \<or> n = 248 then CHR ''o''
      else if 249 \<le> n \<and> n \<le> 252 then CHR ''u''
      else if n = 253 \<or> n = 255 then CHR ''y''
      else c)"

text \<open>
  The platform's \<^verbatim>\<open>localeCompare\<close> with \<^verbatim>\<open>sensitivity: 'accent'\<close> on texts of
  letters and digits: texts that differ in base letters or in accents compare
  as unequal, texts that differ in letter case only compare as equal (\<^verbatim>\<open>a\<close>
  differs from \<^verbatim>\<open>b\<close> and from \<^verbatim>\<open>a\<close> with an acute accent, and equals \<^verbatim>\<open>A\<close>).
  \<^verbatim>\<open>compare\<close> uses nothing but whether the result is 0.
\<close>

definition localeCompare_accent :: "string \<Rightarrow> string \<Rightarrow> int" where
  "localeCompare_accent a b =
     (let ka = map lower_case a; kb = map lower_case b in
      if ka = kb then 0 else if ka < kb then - 1 else 1)"

text \<open>
  Textual equality that ignores letter case and accents, as the specification
  words it (the platform's \<^verbatim>\<open>sensitivity: 'base'\<close>).
\<close>

definition case_accent_insensitive_equal :: "string \<Rightarrow> string \<Rightarrow> bool" where
  "case_accent_insensitive_equal a b \<longleftrightarrow>
     map (strip_accent \<circ> lower_case) a = map (strip_accent \<circ> lower_case) b"

section \<open>Common.ts: IOSSimulatorDevice\<close>

text \<open>
  The values that \<^verbatim>\<open>JSON.parse\<close> returns, and \<^verbatim>\<open>undefined\<close>, which reading a
  missing property gives. An object is the list of its own properties in the
  order of \<^verbatim>\<open>Object.keys\<close>. The code passes numbers on or tests them for being
  falsy, and does nothing else with them; they are modelled as integers.
\<close>

datatype js_value =
    JUndefined
  | JNull
  | JBool bool
  | JNumber int
  | JString string
  | JArray "js_value list"
  | JObject "(string \<times> js_value) list"

definition truthy :: "js_value \<Rightarrow> bool" where
  "truthy v =
     (case v of
        JUndefined \<Rightarrow> False
      | JNull \<Rightarrow> False
      | JBool b \<Rightarrow> b
      | JNumber n \<Rightarrow> n \<noteq> 0
      | JString t \<Rightarrow> t \<noteq> []
      | JArray _ \<Rightarrow> True
      | JObject _ \<Rightarrow> True)"

text \<open>Whether a property name is the canonical numeral of an index below \<open>n\<close>.\<close>

definition array_index :: "string \<Rightarrow> nat \<Rightarrow> nat option" where
  "array_index k n =
     (if k \<noteq> [] \<and> list_all is_digit k \<and> Number_toString (parseInt k) = k \<and> parseInt k < n
      then Some (parseInt k) else None)"

text \<open>
  \<^verbatim>\<open>v[k]\<close> for a string \<open>k\<close>: a type error on \<^verbatim>\<open>undefined\<close> and \<^verbatim>\<open>null\<close>, the own
  property otherwise, \<^verbatim>\<open>undefined\<close> when there is none. Properties inherited
  from the built-in prototypes are not modelled; the code names none of them.
\<close>

definition get_prop :: "js_value \<Rightarrow> string \<Rightarrow> js_error + js_value" where
  "get_prop v k =
     (case v of
        JUndefined \<Rightarrow> Inl TypeError
      | JNull \<Rightarrow> Inl TypeError
      | JBool _ \<Rightarrow> Inr JUndefined
      | JNumber _ \<Rightarrow> Inr JUndefined
      | JString t \<Rightarrow>
          Inr (case array_index k (length t) of
                 Some i \<Rightarrow> JString [t ! i]
               | None \<Rightarrow> if k = ''length'' then JNumber (int (length t)) else JUndefined)
      | JArray xs \<Rightarrow>
          Inr (case array_index k (length xs) of
                 Some i \<Rightarrow> xs ! i
               | None \<Rightarrow> if k = ''length'' then JNumber (int (length xs)) else JUndefined)
      | JObject kvs \<Rightarrow>
          Inr (case map_of kvs k of None \<Rightarrow> JUndefined | Some x \<Rightarrow> x))"

text \<open>\<^verbatim>\<open>Object.keys(v)\<close>.\<close>

definition object_keys :: "js_value \<Rightarrow> js_error + string list" where
  "object_keys v =
     (case v of
        JUndefined \<Rightarrow> Inl TypeError
      | JNull \<Rightarrow> Inl TypeError
      | JBool _ \<Rightarrow> Inr []
      | JNumber _ \<Rightarrow> Inr []
      | JString t \<Rightarrow> Inr (map Number_toString [0..<length t])
      | JArray xs \<Rightarrow> Inr (map Number_toString [0..<length xs])
      | JObject kvs \<Rightarrow> Inr (map fst kvs))"

text \<open>
  The values that \<^verbatim>\<open>for (const x of v)\<close> runs through; a type error when \<open>v\<close>
  is not iterable.
\<close>

definition iterate :: "js_value \<Rightarrow> js_error + js_value list" where
  "iterate v =
     (case v of
        JArray xs \<Rightarrow> Inr xs
      | JString t \<Rightarrow> Inr (map (\<lambda>c. JString [c]) t)
      | _ \<Rightarrow> Inl TypeError)"

text \<open>\<^verbatim>\<open>Array.prototype.join\<close> on an array of strings.\<close>

fun join :: "string \<Rightarrow> string list \<Rightarrow> string" where
  "join sep [] = []"
| "join sep [x] = x"
| "join sep (x # y # ys) = x @ sep @ join sep (y # ys)"

text \<open>
  \<^verbatim>\<open>s.replace(pat, rep)\<close> for a string pattern: the first occurrence of \<open>pat\<close> in
  \<open>s\<close> is replaced (the replacement texts of the code contain no \<^verbatim>\<open>$\<close>).
\<close>

fun replace_first :: "string \<Rightarrow> string \<Rightarrow> string \<Rightarrow> string" where
  "replace_first pat rep [] = (if pat = [] then rep else [])"
| "replace_first pat rep (c # cs) =
     (if prefix pat (c # cs) then rep @ drop (length pat) (c # cs)
      else c # replace_first pat rep cs)"

text \<open>\<^verbatim>\<open>s.replace(/-/gi, '.')\<close>: every dash becomes a dot.\<close>

definition replace_dashes :: "string \<Rightarrow> string" where
  "replace_dashes s = map (\<lambda>c. if c = CHR ''-'' then CHR ''.'' else c) s"

record IOSSimulatorDevice =
  name :: js_value
  udid :: js_value
  state :: js_value
  runtimeId :: string
  isAvailable :: js_value

text \<open>The constructor of \<^verbatim>\<open>IOSSimulatorDevice\<close>.\<close>

definition IOSSimulatorDevice_new ::
  "js_value \<Rightarrow> js_value \<Rightarrow> js_value \<Rightarrow> string \<Rightarrow> js_value \<Rightarrow> IOSSimulatorDevice" where
  "IOSSimulatorDevice_new name' udid' state' runtimeId' isAvailable' =
     (let runtime =
            replace_dashes
              (replace_first ''-'' '' ''
                 (replace_first ''com.apple.CoreSimulator.SimRuntime.'' [] runtimeId'))
      in \<lparr>name = name', udid = udid', state = state', runtimeId = runtime,
          isAvailable = isAvailable'\<rparr>)"

text \<open>
  The source text of \<^verbatim>\<open>runtimeMatchRegex\<close>. In the template literal \<^verbatim>\<open>\.\<close> is the
  character \<^verbatim>\<open>.\<close>, so both dots reach the pattern unescaped.
\<close>

definition runtimeMatchRegex_source :: "string list \<Rightarrow> string" where
  "runtimeMatchRegex_source supportedRuntimes =
     ''.SimRuntime.('' @ join ''|'' supportedRuntimes @ '')''"

text \<open>The inner loop of \<^verbatim>\<open>parseJSONString\<close>, over the devices of one runtime.\<close>

fun device_loop ::
  "string \<Rightarrow> js_value list \<Rightarrow> IOSSimulatorDevice list \<Rightarrow> js_error + IOSSimulatorDevice list"
  where
  "device_loop runtimeIdentifier [] simDevices = Inr simDevices"
| "device_loop runtimeIdentifier (device # rest) simDevices =
     (case get_prop device ''name'' of
        Inl e \<Rightarrow> Inl e
      | Inr n \<Rightarrow>
     (case get_prop device ''udid'' of
        Inl e \<Rightarrow> Inl e
      | Inr u \<Rightarrow>
     (case get_prop device ''state'' of
        Inl e \<Rightarrow> Inl e
      | Inr st \<Rightarrow>
     (case get_prop device ''isAvailable'' of
        Inl e \<Rightarrow> Inl e
      | Inr av \<Rightarrow>
          device_loop runtimeIdentifier rest
            (simDevices @ [IOSSimulatorDevice_new n u st runtimeIdentifier av])))))"

text \<open>The outer loop, over the runtimes.\<close>

fun runtime_loop ::
  "js_value \<Rightarrow> string list \<Rightarrow> IOSSimulatorDevice list \<Rightarrow> js_error + IOSSimulatorDevice list"
  where
  "runtime_loop runtimeDevices [] simDevices = Inr simDevices"
| "runtime_loop runtimeDevices (runtimeIdentifier # rest) simDevices =
     (case get_prop runtimeDevices runtimeIdentifier of
        Inl e \<Rightarrow> Inl e
      | Inr devices \<Rightarrow>
     (case iterate devices of
        Inl e \<Rightarrow> Inl e
      | Inr ds \<Rightarrow>
     (case device_loop runtimeIdentifier ds simDevices of
        Inl e \<Rightarrow> Inl e
      | Inr simDevices' \<Rightarrow> runtime_loop runtimeDevices rest simDevices')))"

text \<open>
  \<^verbatim>\<open>IOSSimulatorDevice.parseJSONString\<close>. Two platform functions are parameters:
  \<open>RegExp\<close> is \<^verbatim>\<open>new RegExp(source)\<close>, \<open>None\<close> when it throws a \<^verbatim>\<open>SyntaxError\<close> and
  otherwise the test whether a string has a match; \<open>JSON_parse\<close> is \<^verbatim>\<open>JSON.parse\<close>,
  \<open>None\<close> when it throws a \<^verbatim>\<open>SyntaxError\<close>.
\<close>

definition parseJSONString ::
  "(string \<Rightarrow> (string \<Rightarrow> bool) option) \<Rightarrow> (string \<Rightarrow> js_value option) \<Rightarrow>
   string \<Rightarrow> string list \<Rightarrow> js_error + IOSSimulatorDevice list" where
  "parseJSONString RegExp JSON_parse jsonString supportedRuntimes =
     (case RegExp (runtimeMatchRegex_source supportedRuntimes) of
        None \<Rightarrow> Inl SyntaxError
      | Some runtimeMatchRegex \<Rightarrow>
     (case JSON_parse jsonString of
        None \<Rightarrow> Inl SyntaxError
      | Some devicesJSON \<Rightarrow>
     (case get_prop devicesJSON ''devices'' of
        Inl e \<Rightarrow> Inl e
      | Inr d \<Rightarrow>
          (let runtimeDevices = (if truthy d then d else JArray []) in
           case object_keys runtimeDevices of
             Inl e \<Rightarrow> Inl e
           | Inr keys \<Rightarrow>
               (let runtimes =
                      rev (sort (filter (\<lambda>key. key \<noteq> [] \<and> runtimeMatchRegex key) keys))
                in runtime_loop runtimeDevices runtimes [])))))"






subsection \<open>Platform functions used in the examples\<close>

text \<open>
  Whether \<open>key\<close> has a match of \<^verbatim>\<open>.SimRuntime.(a|b|...)\<close> for plain texts
  \<^verbatim>\<open>a\<close>, \<^verbatim>\<open>b\<close>, ...: somewhere in \<open>key\<close> a character that is no line terminator,
  the text \<^verbatim>\<open>SimRuntime\<close>, again such a character, and one of the texts.
\<close>

definition line_terminator :: "char \<Rightarrow> bool" where
  "line_terminator c \<longleftrightarrow> c = CHR 0x0A \<or> c = CHR 0x0D"

definition simruntime_match :: "string list \<Rightarrow> string \<Rightarrow> bool" where
  "simruntime_match alternatives key =
     list_ex (\<lambda>t. case t of
                [] \<Rightarrow> False
              | c # t' \<Rightarrow>
                  \<not> line_terminator c \<and> prefix ''SimRuntime'' t' \<and>
                  (case drop 10 t' of
                     [] \<Rightarrow> False
                   | d # t'' \<Rightarrow>
                       \<not> line_terminator d \<and> list_ex (\<lambda>a. prefix a t'') alternatives))
       (suffixes key)"

text \<open>
  \<^verbatim>\<open>new RegExp\<close> at the pattern sources of the examples: the pattern for the
  runtimes \<^verbatim>\<open>iOS-17-5\<close> and \<^verbatim>\<open>iOS-16-4\<close>, and the pattern for the single entry
  \<^verbatim>\<open>(\<close>, whose group is not terminated and which the platform rejects. No other
  source occurs in the examples.
\<close>

definition example_RegExp :: "string \<Rightarrow> (string \<Rightarrow> bool) option" where
  "example_RegExp source =
     (if source = ''.SimRuntime.(iOS-17-5|iOS-16-4)''
      then Some (simruntime_match [''iOS-17-5'', ''iOS-16-4''])
      else None)"

text \<open>A device entry of the simulator listing.\<close>

definition example_device :: "string \<Rightarrow> string \<Rightarrow> js_value" where
  "example_device n u =
     JObject [(''name'', JString n), (''udid'', JString u), (''state'', JString ''Shutdown''),
              (''isAvailable'', JBool True)]"

definition example_runtimes :: "(string \<times> js_value) list" where
  "example_runtimes =
     [(''com.apple.CoreSimulator.SimRuntime.iOS-16-4'',
         JArray [example_device ''iPhone 14'' ''A1'']),
      (''com.apple.CoreSimulator.SimRuntime.iOS-17-5'',
         JArray [example_device ''iPhone 15'' ''B1'', example_device ''iPhone 15 Pro'' ''B2''])]"

text \<open>
  \<^verbatim>\<open>JSON.parse\<close> at the texts of the examples: the text \<^verbatim>\<open>listing\<close> stands for the
  JSON text of a listing with the runtimes of \<open>example_runtimes\<close>, \<^verbatim>\<open>{}\<close> is the
  empty object, and \<^verbatim>\<open>{\<close> is no JSON text. No other text occurs in the examples.
\<close>

definition example_JSON_parse :: "string \<Rightarrow> js_value option" where
  "example_JSON_parse text =
     (if text = ''listing'' then Some (JObject [(''devices'', JObject example_runtimes)])
      else if text = ''{}'' then Some (JObject [])
      else None)"

section \<open>BaseSetup: the requirement checks\<close>

text \<open>
  What a call \<^verbatim>\<open>checkFunction()\<close> does: it throws before it returns, or it
  returns a promise. The promise is modelled by the way it settles: \<open>Inr v\<close>
  when it fulfils with the message \<open>v\<close> (\<open>None\<close> is \<^verbatim>\<open>undefined\<close>), \<open>Inl e\<close> when
  it rejects with the reason \<open>e\<close>.
\<close>

datatype check_call =
    Throws js_error
  | Returns "js_error + string option"

text \<open>A requirement. The logger is not modelled.\<close>

record Requirement =
  title :: string
  checkFunction :: check_call
  fulfilledMessage :: "string option"
  unfulfilledMessage :: "string option"
  supplementalMessage :: "string option"

text \<open>
  The duration of a step is what the performance observer reports for it; the
  code copies it and does not compute with it, so its type is left open.
\<close>

record 'd WrappedPromiseResult =
  message :: "js_error + string option"
  status :: string
  duration :: 'd
  requirement :: Requirement

record 'd SetupTestCase =
  case_title :: string
  testResult :: string
  case_message :: "js_error + string option"
  hasPassed :: bool
  case_supplementalMessage :: "string option"
  case_duration :: 'd

record 'd SetupTestResult =
  hasMetAllRequirements :: bool
  tests :: "'d SetupTestCase list"

text \<open>
  \<^verbatim>\<open>WrappedPromise\<close>. It calls \<^verbatim>\<open>requirement.checkFunction()\<close> first, outside the
  chain of handlers: when that call throws, \<^verbatim>\<open>WrappedPromise\<close> throws (\<open>Inl\<close>).
  Otherwise it returns a promise (\<open>Inr\<close>), again modelled by the way it settles:
  both the \<^verbatim>\<open>then\<close> and the \<^verbatim>\<open>catch\<close> handler return a result object, so this
  promise fulfils whichever way the check settled. The performance marker of
  the requirements is taken to be registered, and marking and measuring to
  succeed.
\<close>

definition WrappedPromise ::
  "(Requirement \<Rightarrow> 'd) \<Rightarrow> Requirement \<Rightarrow> js_error + (js_error + 'd WrappedPromiseResult)"
  where
  "WrappedPromise stepDuration req =
     (case checkFunction req of
        Throws e \<Rightarrow> Inl e
      | Returns (Inr v) \<Rightarrow>
          Inr (Inr \<lparr>message = Inr v, status = ''fulfilled'', duration = stepDuration req,
                    requirement = req\<rparr>)
      | Returns (Inl e) \<Rightarrow>
          Inr (Inr \<lparr>message = Inl e, status = ''rejected'', duration = stepDuration req,
                    requirement = req\<rparr>))"

text \<open>
  \<^verbatim>\<open>this.requirements.forEach(requirement => allPromises.push(WrappedPromise(requirement)))\<close>:
  the requirements are wrapped in order, and the first call that throws ends
  the loop with its error.
\<close>

fun push_wrapped ::
  "(Requirement \<Rightarrow> 'd) \<Rightarrow> Requirement list \<Rightarrow>
   js_error + (js_error + 'd WrappedPromiseResult) list" where
  "push_wrapped stepDuration [] = Inr []"
| "push_wrapped stepDuration (req # reqs) =
     (case WrappedPromise stepDuration req of
        Inl e \<Rightarrow> Inl e
      | Inr p \<Rightarrow>
          (case push_wrapped stepDuration reqs of
             Inl e \<Rightarrow> Inl e
           | Inr ps \<Rightarrow> Inr (p # ps)))"

text \<open>
  \<^verbatim>\<open>Promise.all\<close> on promises that have settled: it rejects as soon as one of
  them rejects, and fulfils with the list of all values otherwise.
\<close>

fun Promise_all :: "('e + 'a) list \<Rightarrow> 'e + 'a list" where
  "Promise_all [] = Inr []"
| "Promise_all (p # ps) =
     (case p of
        Inl e \<Rightarrow> Inl e
      | Inr x \<Rightarrow> (case Promise_all ps of Inl e \<Rightarrow> Inl e | Inr xs \<Rightarrow> Inr (x # xs)))"

text \<open>The body of \<^verbatim>\<open>results.forEach\<close> in \<^verbatim>\<open>executeSetup\<close>.\<close>

definition record_result ::
  "string \<Rightarrow> string \<Rightarrow> 'd SetupTestResult \<Rightarrow> 'd WrappedPromiseResult \<Rightarrow> 'd SetupTestResult"
  where
  "record_result passed failed report result =
     (if status result = ''fulfilled''
      then report\<lparr>tests := tests report @
             [\<lparr>case_title = title (requirement result), testResult = passed,
               case_message = message result, hasPassed = True,
               case_supplementalMessage = supplementalMessage (requirement result),
               case_duration = duration result\<rparr>]\<rparr>
      else if status result = ''rejected''
      then report\<lparr>hasMetAllRequirements := False,
             tests := tests report @
             [\<lparr>case_title = title (requirement result), testResult = failed,
               case_message = message result, hasPassed = False,
               case_supplementalMessage = supplementalMessage (requirement result),
               case_duration = duration result\<rparr>]\<rparr>
      else report)"

text \<open>
  \<^verbatim>\<open>BaseSetup.executeSetup\<close> on the list \<^verbatim>\<open>this.requirements\<close>; the result is
  the way the promise it returns settles. An error thrown in its body, by a
  call \<^verbatim>\<open>WrappedPromise(requirement)\<close>, rejects that promise. The parameters
  \<open>passed\<close> and \<open>failed\<close> are the texts of the messages \<^verbatim>\<open>passed\<close> and \<^verbatim>\<open>failed\<close>.
  The tree that is printed from the report is not modelled.
\<close>

definition executeSetup ::
  "string \<Rightarrow> string \<Rightarrow> (Requirement \<Rightarrow> 'd) \<Rightarrow> Requirement list \<Rightarrow>
   js_error + 'd SetupTestResult" where
  "executeSetup passed failed stepDuration requirements =
     (case push_wrapped stepDuration requirements of
        Inl e \<Rightarrow> Inl e
      | Inr allPromises \<Rightarrow>
          (case Promise_all allPromises of
             Inl e \<Rightarrow> Inl e
           | Inr results \<Rightarrow>
               Inr (foldl (record_result passed failed)
                      \<lparr>hasMetAllRequirements = True, tests = []\<rparr> results)))"

text \<open>Whether the check of a requirement returns a promise, and whether it fulfils.\<close>

definition returns_promise :: "Requirement \<Rightarrow> bool" where
  "returns_promise req = (case checkFunction req of Throws _ \<Rightarrow> False | Returns _ \<Rightarrow> True)"

definition fulfils :: "Requirement \<Rightarrow> bool" where
  "fulfils req = (case checkFunction req of Returns (Inr _) \<Rightarrow> True | _ \<Rightarrow> False)"

text \<open>The way the check of a requirement settles, and the error of one that throws.\<close>

definition settles_with :: "Requirement \<Rightarrow> js_error + string option" where
  "settles_with req = (case checkFunction req of Returns p \<Rightarrow> p | Throws e \<Rightarrow> Inl e)"

text \<open>The outcome that the report holds for a requirement.\<close>

definition outcome_of ::
  "string \<Rightarrow> string \<Rightarrow> (Requirement \<Rightarrow> 'd) \<Rightarrow> Requirement \<Rightarrow> 'd SetupTestCase" where
  "outcome_of passed failed stepDuration req =
     \<lparr>case_title = title req, testResult = (if fulfils req then passed else failed),
      case_message = settles_with req, hasPassed = fulfils req,
      case_supplementalMessage = supplementalMessage req,
      case_duration = stepDuration req\<rparr>"

subsection \<open>Requirements used in the examples\<close>

definition example_requirement :: "string \<Rightarrow> check_call \<Rightarrow> Requirement" where
  "example_requirement t c =
     \<lparr>title = t, checkFunction = c, fulfilledMessage = None, unfulfilledMessage = None,
      supplementalMessage = None\<rparr>"

text \<open>Three requirements whose checks return promises, the second of which rejects.\<close>

definition example_requirements :: "Requirement list" where
  "example_requirements =
     [example_requirement ''Xcode'' (Returns (Inr (Some ''Xcode is installed''))),
      example_requirement ''Runtime'' (Returns (Inl (Error ''No supported runtime''))),
      example_requirement ''macOS'' (Returns (Inr None))]"

text \<open>
  Three requirements, the second of which has a check function that is not
  \<^verbatim>\<open>async\<close> and throws before it returns a promise.
\<close>

definition example_requirements_throwing :: "Requirement list" where
  "example_requirements_throwing =
     [example_requirement ''Xcode'' (Returns (Inr (Some ''Xcode is installed''))),
      example_requirement ''Runtime'' (Throws (Error ''xcrun is missing'')),
      example_requirement ''macOS'' (Returns (Inr None))]"

definition example_stepDuration :: "Requirement \<Rightarrow> nat" where
  "example_stepDuration req = 0"

section \<open>The launchers\<close>

text \<open>
  A launcher drives helpers that are not part of the code at hand
  (\<^verbatim>\<open>AndroidUtils\<close>, \<^verbatim>\<open>IOSUtils\<close>, \<^verbatim>\<open>PreviewUtils\<close>, \<^verbatim>\<open>CommonUtils\<close> and the message
  catalogue). Each helper is a parameter: a function from the arguments of the
  call to the way the promise it returns settles (\<open>Inl\<close> a rejection, \<open>Inr\<close>
  the value). A run of a launcher is the list of the calls it makes, in order,
  together with the way its own promise settles.
\<close>

record LaunchArgument =
  arg_name :: string
  arg_value :: string

text \<open>The fields that the launchers read from an app preview configuration.\<close>

record AppPreviewConfig =
  activity :: "string option"
  launch_arguments :: "LaunchArgument list option"

record PreviewUtils =
  useLwcServerForPreviewing :: "string \<Rightarrow> AppPreviewConfig option \<Rightarrow> bool"
  isTargetingBrowser :: "string \<Rightarrow> bool"
  prefixRouteIfNeeded :: "string \<Rightarrow> string"
  COMPONENT_NAME_ARG_PREFIX :: string
  PROJECT_DIR_ARG_PREFIX :: string
  SERVER_ADDRESS_PREFIX :: string
  SERVER_PORT_PREFIX :: string

text \<open>
  Sequencing: \<open>and_then p f\<close> makes the calls of \<open>p\<close> and, when \<open>p\<close> fulfils with
  \<open>x\<close>, goes on with \<open>f x\<close>; a rejection ends the run. This is \<^verbatim>\<open>await\<close> and
  \<^verbatim>\<open>.then\<close>. \<open>on_error p c\<close> is \<^verbatim>\<open>.catch\<close> with a handler that makes the call \<open>c\<close>
  and throws the error again.
\<close>

definition and_then ::
  "'c list \<times> ('e + 'a) \<Rightarrow> ('a \<Rightarrow> 'c list \<times> ('e + 'b)) \<Rightarrow> 'c list \<times> ('e + 'b)" where
  "and_then p f =
     (case p of
        (calls, Inl e) \<Rightarrow> (calls, Inl e)
      | (calls, Inr x) \<Rightarrow> (case f x of (calls', r) \<Rightarrow> (calls @ calls', r)))"

definition on_error :: "'c list \<times> ('e + 'a) \<Rightarrow> 'c \<Rightarrow> 'c list \<times> ('e + 'a)" where
  "on_error p c =
     (case p of
        (calls, Inl e) \<Rightarrow> (calls @ [c], Inl e)
      | (calls, Inr x) \<Rightarrow> (calls, Inr x))"

definition call :: "'c \<Rightarrow> 'e + 'a \<Rightarrow> 'c list \<times> ('e + 'a)" where
  "call c settles = ([c], settles)"

definition effect :: "'c \<Rightarrow> 'c list \<times> ('e + unit)" where
  "effect c = ([c], Inr ())"

text \<open>\<^verbatim>\<open>xs[0]\<close>.\<close>

definition first_element :: "'a list \<Rightarrow> 'a option" where
  "first_element xs = (case xs of [] \<Rightarrow> None | x # _ \<Rightarrow> Some x)"

subsection \<open>AndroidLauncher.ts\<close>

text \<open>The fields that the launcher reads from the preferred emulator image.\<close>

record AndroidPackage =
  platformEmulatorImage :: string
  platformAPI :: string
  abi :: string

datatype android_call =
    FindRequiredEmulatorImages
  | GetSupportedDevices
  | GetNextAndroidAdbPort
  | StartCliAction string string
  | StopCliAction "string option"
  | HasEmulator string
  | CreateNewVirtualDevice string string string "string option" string
  | StartEmulator string nat
  | PollDeviceStatus nat
  | LaunchURLIntent string nat
  | LaunchNativeApp string string "string option" string "LaunchArgument list" string nat
      "string option" "string option"

record AndroidUtils =
  findRequiredEmulatorImages :: "js_error + AndroidPackage"
  getSupportedDevices :: "js_error + string list"
  getNextAndroidAdbPort :: "js_error + nat"
  hasEmulator :: "string \<Rightarrow> js_error + bool"
  createNewVirtualDevice ::
    "string \<Rightarrow> string \<Rightarrow> string \<Rightarrow> string option \<Rightarrow> string \<Rightarrow> js_error + unit"
  startEmulator :: "string \<Rightarrow> nat \<Rightarrow> js_error + nat"
  pollDeviceStatus :: "nat \<Rightarrow> js_error + unit"
  launchURLIntent :: "string \<Rightarrow> nat \<Rightarrow> js_error + unit"
  launchNativeApp ::
    "string \<Rightarrow> string \<Rightarrow> string option \<Rightarrow> string \<Rightarrow> LaunchArgument list \<Rightarrow> string \<Rightarrow> nat \<Rightarrow>
     string option \<Rightarrow> string option \<Rightarrow> js_error + unit"

text \<open>
  The fourth \<^verbatim>\<open>then\<close> handler of \<^verbatim>\<open>AndroidLauncher.launchPreview\<close>: the launch of
  the browser or of the native app, on the emulator at \<open>emulatorPort\<close>.
\<close>

definition android_launch_target ::
  "AndroidUtils \<Rightarrow> PreviewUtils \<Rightarrow> string \<Rightarrow> string \<Rightarrow> string option \<Rightarrow> string \<Rightarrow>
   AppPreviewConfig option \<Rightarrow> string \<Rightarrow> nat \<Rightarrow> android_call list \<times> (js_error + unit)" where
  "android_launch_target au pu compName projectDir appBundlePath targetApp appConfig serverPort
     emulatorPort =
     (let useServer = useLwcServerForPreviewing pu targetApp appConfig;
          address = (if useServer then Some ''http://10.0.2.2'' else None);
          port = (if useServer then Some serverPort else None)
      in if isTargetingBrowser pu targetApp
         then (let compPath = prefixRouteIfNeeded pu compName;
                   url = template_string address @ '':'' @ template_string port @
                         ''/lwc/preview/'' @ compPath
               in call (LaunchURLIntent url emulatorPort) (launchURLIntent au url emulatorPort))
         else and_then (effect (StopCliAction (Some (''Launching App '' @ targetApp))))
           (\<lambda>_.
              let launchActivity =
                    (case appConfig of
                       None \<Rightarrow> []
                     | Some c \<Rightarrow> (case activity c of None \<Rightarrow> [] | Some a \<Rightarrow> a));
                  targetAppArguments =
                    (case appConfig of
                       None \<Rightarrow> []
                     | Some c \<Rightarrow> (case launch_arguments c of None \<Rightarrow> [] | Some as \<Rightarrow> as))
              in call
                   (LaunchNativeApp compName projectDir appBundlePath targetApp
                      targetAppArguments launchActivity emulatorPort address port)
                   (launchNativeApp au compName projectDir appBundlePath targetApp
                      targetAppArguments launchActivity emulatorPort address port)))"

text \<open>
  The third \<^verbatim>\<open>then\<close> handler, which runs when \<^verbatim>\<open>startEmulator\<close> has resolved with
  \<open>actualPort\<close>, and the handlers after it. The handler stores \<open>actualPort\<close> in
  the variable \<^verbatim>\<open>emulatorPort\<close>, which the later handlers read.
\<close>

definition android_after_start ::
  "AndroidUtils \<Rightarrow> PreviewUtils \<Rightarrow> string \<Rightarrow> string \<Rightarrow> string \<Rightarrow> string option \<Rightarrow> string \<Rightarrow>
   AppPreviewConfig option \<Rightarrow> string \<Rightarrow> nat \<Rightarrow> android_call list \<times> (js_error + unit)" where
  "android_after_start au pu emuName compName projectDir appBundlePath targetApp appConfig
     serverPort actualPort =
     (let emulatorPort = actualPort in
      and_then
        (effect (StartCliAction ''Launching''
                   (''Waiting for device '' @ emuName @ '' to boot'')))
        (\<lambda>_.
      and_then (call (PollDeviceStatus emulatorPort) (pollDeviceStatus au emulatorPort))
        (\<lambda>_.
      and_then
        (android_launch_target au pu compName projectDir appBundlePath targetApp appConfig
           serverPort emulatorPort)
        (\<lambda>_. effect (StopCliAction None)))))"

text \<open>
  The chain of promises from \<^verbatim>\<open>hasEmulator\<close> on, without its \<^verbatim>\<open>catch\<close>. Here
  \<open>emulatorPort\<close> is the port from \<^verbatim>\<open>getNextAndroidAdbPort\<close>.
\<close>

definition android_chain ::
  "AndroidUtils \<Rightarrow> PreviewUtils \<Rightarrow> string \<Rightarrow> string \<Rightarrow> string \<Rightarrow> string option \<Rightarrow> string \<Rightarrow>
   nat \<Rightarrow> string \<Rightarrow> string \<Rightarrow> string option \<Rightarrow> string \<Rightarrow> AppPreviewConfig option \<Rightarrow> string \<Rightarrow>
   android_call list \<times> (js_error + unit)" where
  "android_chain au pu emuName emuImage androidApi device abi' emulatorPort compName projectDir
     appBundlePath targetApp appConfig serverPort =
     and_then (call (HasEmulator emuName) (hasEmulator au emuName))
       (\<lambda>result.
     and_then
       (if \<not> result
        then and_then (effect (StartCliAction ''Launching'' (''Creating device '' @ emuName)))
               (\<lambda>_. call (CreateNewVirtualDevice emuName emuImage androidApi device abi')
                       (createNewVirtualDevice au emuName emuImage androidApi device abi'))
        else effect (StartCliAction ''Launching'' (''Found device '' @ emuName)))
       (\<lambda>_.
     and_then (effect (StartCliAction ''Launching'' (''Starting device '' @ emuName)))
       (\<lambda>_.
     and_then (call (StartEmulator emuName emulatorPort) (startEmulator au emuName emulatorPort))
       (\<lambda>actualPort.
          android_after_start au pu emuName compName projectDir appBundlePath targetApp
            appConfig serverPort actualPort))))"

text \<open>
  \<^verbatim>\<open>AndroidLauncher.launchPreview\<close> of the launcher for the emulator
  \<open>emulatorName\<close>: the awaited calls, then the chain with its \<^verbatim>\<open>catch\<close>.
\<close>

definition AndroidLauncher_launchPreview ::
  "AndroidUtils \<Rightarrow> PreviewUtils \<Rightarrow> string \<Rightarrow> string \<Rightarrow> string \<Rightarrow> string option \<Rightarrow> string \<Rightarrow>
   AppPreviewConfig option \<Rightarrow> string \<Rightarrow> android_call list \<times> (js_error + unit)" where
  "AndroidLauncher_launchPreview au pu emulatorName compName projectDir appBundlePath targetApp
     appConfig serverPort =
     and_then (call FindRequiredEmulatorImages (findRequiredEmulatorImages au))
       (\<lambda>preferredPack.
     let emuImage = (if platformEmulatorImage preferredPack = [] then ''default''
                     else platformEmulatorImage preferredPack);
         androidApi = platformAPI preferredPack;
         abi' = abi preferredPack
     in
     and_then (call GetSupportedDevices (getSupportedDevices au))
       (\<lambda>devices.
     let device = first_element devices in
     and_then (call GetNextAndroidAdbPort (getNextAndroidAdbPort au))
       (\<lambda>emulatorPort.
     let emuName = emulatorName in
     and_then (effect (StartCliAction ''Launching'' (''Searching for '' @ emuName)))
       (\<lambda>_.
     on_error
       (android_chain au pu emuName emuImage androidApi device abi' emulatorPort compName
          projectDir appBundlePath targetApp appConfig serverPort)
       (StopCliAction (Some ''Error encountered during launch''))))))"

text \<open>The emulator port that a call addresses, for the calls made after the start.\<close>

definition port_addressed :: "android_call \<Rightarrow> nat option" where
  "port_addressed c =
     (case c of
        PollDeviceStatus p \<Rightarrow> Some p
      | LaunchURLIntent _ p \<Rightarrow> Some p
      | LaunchNativeApp _ _ _ _ _ _ p _ _ \<Rightarrow> Some p
      | _ \<Rightarrow> None)"

subsection \<open>IOSLauncher.ts\<close>

datatype ios_call =
    IOSGetSupportedDevices
  | IOSGetSupportedRuntimes
  | GetSimulator string
  | StartCliActionIOS string string
  | UpdateCliAction string
  | StopCliActionIOS "string option"
  | CreateNewDevice string "string option" "string option"
  | BootDevice string bool
  | LaunchSimulatorApp
  | LaunchURLInBootedSimulator string string
  | LaunchAppInBootedSimulator string "string option" string "LaunchArgument list"

text \<open>
  \<^verbatim>\<open>getSimulator\<close> gives the simulator found, of which the launcher reads the
  \<^verbatim>\<open>udid\<close> only; \<open>None\<close> when there is no simulator or it has no \<^verbatim>\<open>udid\<close>.
  \<open>getMessage\<close> is the message catalogue.
\<close>

record IOSUtils =
  ios_getSupportedDevices :: "js_error + string list"
  ios_getSupportedRuntimes :: "js_error + string list"
  getSimulator :: "string \<Rightarrow> js_error + string option"
  createNewDevice :: "string \<Rightarrow> string option \<Rightarrow> string option \<Rightarrow> js_error + string"
  bootDevice :: "string \<Rightarrow> bool \<Rightarrow> js_error + unit"
  launchSimulatorApp :: "js_error + unit"
  launchURLInBootedSimulator :: "string \<Rightarrow> string \<Rightarrow> js_error + unit"
  launchAppInBootedSimulator ::
    "string \<Rightarrow> string option \<Rightarrow> string \<Rightarrow> LaunchArgument list \<Rightarrow> js_error + unit"
  getMessage :: "string \<Rightarrow> string list \<Rightarrow> string"

text \<open>The third \<^verbatim>\<open>then\<close> handler of \<^verbatim>\<open>IOSLauncher.launchPreview\<close>.\<close>

definition ios_launch_target ::
  "IOSUtils \<Rightarrow> PreviewUtils \<Rightarrow> string \<Rightarrow> string \<Rightarrow> string option \<Rightarrow> string \<Rightarrow>
   AppPreviewConfig option \<Rightarrow> string \<Rightarrow> bool \<Rightarrow> string \<Rightarrow> ios_call list \<times> (js_error + unit)" where
  "ios_launch_target iu pu compName projectDir appBundlePath targetApp appConfig serverPort
     targetingLwrServer deviceUDID =
     (let useServer = useLwcServerForPreviewing pu targetApp appConfig;
          address = (if useServer then Some ''http://localhost'' else None);
          port = (if useServer then Some serverPort else None)
      in if isTargetingBrowser pu targetApp
         then (let url =
                     (if targetingLwrServer
                      then template_string address @ '':'' @ template_string port
                      else (let compPath = prefixRouteIfNeeded pu compName
                            in template_string address @ '':'' @ template_string port @
                               ''/lwc/preview/'' @ compPath))
               in and_then (effect (UpdateCliAction (getMessage iu ''launchBrowserStatus'' [url])))
                    (\<lambda>_. call (LaunchURLInBootedSimulator deviceUDID url)
                            (launchURLInBootedSimulator iu deviceUDID url)))
         else and_then (effect (UpdateCliAction (getMessage iu ''launchAppStatus'' [targetApp])))
           (\<lambda>_.
              let targetAppArguments =
                    (case appConfig of
                       None \<Rightarrow> []
                     | Some c \<Rightarrow> (case launch_arguments c of None \<Rightarrow> [] | Some as \<Rightarrow> as))
                    @ [\<lparr>arg_name = COMPONENT_NAME_ARG_PREFIX pu, arg_value = compName\<rparr>,
                       \<lparr>arg_name = PROJECT_DIR_ARG_PREFIX pu, arg_value = projectDir\<rparr>]
                    @ (case address of
                         None \<Rightarrow> []
                       | Some a \<Rightarrow>
                           if a \<noteq> [] then [\<lparr>arg_name = SERVER_ADDRESS_PREFIX pu, arg_value = a\<rparr>]
                           else [])
                    @ (case port of
                         None \<Rightarrow> []
                       | Some p \<Rightarrow>
                           if p \<noteq> [] then [\<lparr>arg_name = SERVER_PORT_PREFIX pu, arg_value = p\<rparr>]
                           else [])
              in call (LaunchAppInBootedSimulator deviceUDID appBundlePath targetApp
                         targetAppArguments)
                   (launchAppInBootedSimulator iu deviceUDID appBundlePath targetApp
                      targetAppArguments)))"

text \<open>The chain of promises from \<^verbatim>\<open>bootDevice\<close> on, without its \<^verbatim>\<open>catch\<close>.\<close>

definition ios_chain ::
  "IOSUtils \<Rightarrow> PreviewUtils \<Rightarrow> string \<Rightarrow> string \<Rightarrow> string option \<Rightarrow> string \<Rightarrow>
   AppPreviewConfig option \<Rightarrow> string \<Rightarrow> bool \<Rightarrow> string \<Rightarrow> ios_call list \<times> (js_error + unit)" where
  "ios_chain iu pu compName projectDir appBundlePath targetApp appConfig serverPort
     targetingLwrServer deviceUDID =
     and_then (call (BootDevice deviceUDID True) (bootDevice iu deviceUDID True))
       (\<lambda>_.
     and_then (call LaunchSimulatorApp (launchSimulatorApp iu))
       (\<lambda>_.
     and_then
       (ios_launch_target iu pu compName projectDir appBundlePath targetApp appConfig
          serverPort targetingLwrServer deviceUDID)
       (\<lambda>_. effect (StopCliActionIOS None))))"

text \<open>
  \<^verbatim>\<open>IOSLauncher.launchPreview\<close> of the launcher for the simulator
  \<open>simulatorName\<close>: the awaited calls, then the chain with its \<^verbatim>\<open>catch\<close>.
\<close>

definition IOSLauncher_launchPreview ::
  "IOSUtils \<Rightarrow> PreviewUtils \<Rightarrow> string \<Rightarrow> string \<Rightarrow> string \<Rightarrow> string option \<Rightarrow> string \<Rightarrow>
   AppPreviewConfig option \<Rightarrow> string \<Rightarrow> bool \<Rightarrow> ios_call list \<times> (js_error + unit)" where
  "IOSLauncher_launchPreview iu pu simulatorName compName projectDir appBundlePath targetApp
     appConfig serverPort targetingLwrServer =
     and_then (call IOSGetSupportedDevices (ios_getSupportedDevices iu))
       (\<lambda>availableDevices.
     and_then (call IOSGetSupportedRuntimes (ios_getSupportedRuntimes iu))
       (\<lambda>supportedRuntimes.
     and_then (call (GetSimulator simulatorName) (getSimulator iu simulatorName))
       (\<lambda>currentSimulatorUDID.
     and_then
       (effect (StartCliActionIOS (getMessage iu ''startPreviewAction'' [])
                  (getMessage iu ''searchForDeviceStatus'' [simulatorName])))
       (\<lambda>_.
     and_then
       (if currentSimulatorUDID = None \<or> currentSimulatorUDID = Some []
        then and_then
               (effect (UpdateCliAction (getMessage iu ''createDeviceStatus'' [simulatorName])))
               (\<lambda>_. call (CreateNewDevice simulatorName (first_element availableDevices)
                             (first_element supportedRuntimes))
                       (createNewDevice iu simulatorName (first_element availableDevices)
                          (first_element supportedRuntimes)))
        else and_then
               (effect (UpdateCliAction (getMessage iu ''foundDeviceStatus'' [simulatorName])))
               (\<lambda>_. ([], Inr (template_string currentSimulatorUDID))))
       (\<lambda>deviceUDID.
     and_then
       (effect (UpdateCliAction
                  (getMessage iu ''startDeviceStatus''
                     [simulatorName @ '' ('' @ deviceUDID @ '')''])))
       (\<lambda>_.
     on_error
       (ios_chain iu pu compName projectDir appBundlePath targetApp appConfig serverPort
          targetingLwrServer deviceUDID)
       (StopCliActionIOS (Some (getMessage iu ''genericErrorStatus'' [])))))))))"

subsection \<open>Helpers used in the examples\<close>

definition example_PreviewUtils :: PreviewUtils where
  "example_PreviewUtils =
     \<lparr>useLwcServerForPreviewing = (\<lambda>targetApp appConfig. True),
      isTargetingBrowser = (\<lambda>targetApp. targetApp = ''browser''),
      prefixRouteIfNeeded = (\<lambda>compName. ''c/'' @ compName),
      COMPONENT_NAME_ARG_PREFIX = ''com.salesforce.mobile-tooling.componentname'',
      PROJECT_DIR_ARG_PREFIX = ''com.salesforce.mobile-tooling.projectdir'',
      SERVER_ADDRESS_PREFIX = ''com.salesforce.mobile-tooling.lwc-server-address'',
      SERVER_PORT_PREFIX = ''com.salesforce.mobile-tooling.lwc-server-port''\<rparr>"

text \<open>
  An Android host on which every helper succeeds; the port 5572 is asked for and
  the emulator reports the port 5574.
\<close>

definition example_AndroidUtils :: AndroidUtils where
  "example_AndroidUtils =
     \<lparr>findRequiredEmulatorImages =
        Inr \<lparr>platformEmulatorImage = ''google_apis'', platformAPI = ''android-30'',
             abi = ''x86_64''\<rparr>,
      getSupportedDevices = Inr [''pixel'', ''pixel_xl''],
      getNextAndroidAdbPort = Inr 5572,
      hasEmulator = (\<lambda>emuName. Inr True),
      createNewVirtualDevice = (\<lambda>emuName emuImage api device abi'. Inr ()),
      startEmulator = (\<lambda>emuName requested. Inr (requested + 2)),
      pollDeviceStatus = (\<lambda>port. Inr ()),
      launchURLIntent = (\<lambda>url port. Inr ()),
      launchNativeApp = (\<lambda>compName projectDir bundle targetApp args act port address sport.
                          Inr ())\<rparr>"

text \<open>An iOS host on which every helper succeeds and the simulator exists.\<close>

definition example_IOSUtils :: IOSUtils where
  "example_IOSUtils =
     \<lparr>ios_getSupportedDevices = Inr [''iPhone-15''],
      ios_getSupportedRuntimes = Inr [''iOS-17-5''],
      getSimulator = (\<lambda>simulatorName. Inr (Some ''B1'')),
      createNewDevice = (\<lambda>simulatorName device runtime. Inr ''N1''),
      bootDevice = (\<lambda>deviceUDID wait. Inr ()),
      launchSimulatorApp = Inr (),
      launchURLInBootedSimulator = (\<lambda>deviceUDID url. Inr ()),
      launchAppInBootedSimulator = (\<lambda>deviceUDID bundle targetApp args. Inr ()),
      getMessage = (\<lambda>key args. key)\<rparr>"

section \<open>Numerals\<close>

declare Number_toString.simps [simp del]

lemma digit_char_is_digit: "d < 10 \<Longrightarrow> is_digit (digit_char d)"
  by (simp add: is_digit_def digit_char_def less_eq_char_def)

lemma digit_char_nonzero: "0 < d \<Longrightarrow> d < 10 \<Longrightarrow> is_nonzero_digit (digit_char d)"
  by (simp add: is_nonzero_digit_def digit_char_def less_eq_char_def)

lemma digit_char_zero: "digit_char 0 = CHR ''0''"
  by code_simp

lemma digit_val_digit_char: "d < 10 \<Longrightarrow> digit_val (digit_char d) = d"
  by (simp add: digit_val_def digit_char_def)

lemma is_digit_not_whitespace: "is_digit c \<Longrightarrow> \<not> js_whitespace c"
  by (auto simp add: is_digit_def js_whitespace_def less_eq_char_def)

lemma nonzero_digit_not_zero: "is_nonzero_digit c \<Longrightarrow> c \<noteq> CHR ''0''"
  by (auto simp add: is_nonzero_digit_def less_eq_char_def)

lemma Number_toString_digits: "list_all is_digit (Number_toString n)"
proof (induction n rule: Number_toString.induct)
  case (1 n)
  show ?case
  proof (cases "n < 10")
    case True
    then show ?thesis
      by (simp add: Number_toString.simps [of n] digit_char_is_digit)
  next
    case False
    with 1 show ?thesis
      by (simp add: Number_toString.simps [of n] digit_char_is_digit)
  qed
qed

lemma Number_toString_nonempty: "Number_toString n \<noteq> []"
  by (simp add: Number_toString.simps [of n])

lemma Number_toString_hd:
  "0 < n \<Longrightarrow> is_nonzero_digit (hd (Number_toString n))"
proof (induction n rule: Number_toString.induct)
  case (1 n)
  show ?case
  proof (cases "n < 10")
    case True
    with 1(2) show ?thesis
      by (simp add: Number_toString.simps [of n] digit_char_nonzero)
  next
    case False
    then have "0 < n div 10" by simp
    with 1 False show ?thesis
      by (simp add: Number_toString.simps [of n] Number_toString_nonempty)
  qed
qed

lemma parseInt_snoc: "parseInt (ds @ [c]) = 10 * parseInt ds + digit_val c"
  by (simp add: parseInt_def)

lemma parseInt_Number_toString: "parseInt (Number_toString n) = n"
proof (induction n rule: Number_toString.induct)
  case (1 n)
  show ?case
  proof (cases "n < 10")
    case True
    then show ?thesis
      by (simp add: Number_toString.simps [of n] parseInt_def digit_val_digit_char)
  next
    case False
    with 1 show ?thesis
      by (simp add: Number_toString.simps [of n] parseInt_snoc digit_val_digit_char)
  qed
qed

section \<open>The version pattern on numerals\<close>

lemma takeWhile_digits_append:
  "list_all is_digit ds \<Longrightarrow> \<not> starts_with_digit r \<Longrightarrow> takeWhile is_digit (ds @ r) = ds"
  by (induction ds) (auto simp add: starts_with_digit_def split: list.splits)

lemma number_alts_Number_toString:
  assumes "\<not> starts_with_digit r"
  shows "\<exists>alts. number_alts (Number_toString n @ r) = (Number_toString n, r) # alts"
proof (cases "n = 0")
  case True
  then show ?thesis
    by (simp add: Number_toString.simps [of 0] digit_char_zero number_alts_def
        is_nonzero_digit_def less_eq_char_def)
next
  case False
  obtain c ds where cds: "Number_toString n = c # ds"
    using Number_toString_nonempty [of n] by (cases "Number_toString n") auto
  from False have "is_nonzero_digit (hd (Number_toString n))"
    by (simp add: Number_toString_hd)
  with cds have c: "is_nonzero_digit c" by simp
  from Number_toString_digits [of n] cds have ds: "list_all is_digit ds" by simp
  have tw: "takeWhile is_digit (ds @ r) = ds"
    using ds assms by (rule takeWhile_digits_append)
  show ?thesis
    by (simp add: cds number_alts_def c nonzero_digit_not_zero tw rev_nth)
qed

lemma trim_id:
  assumes "s \<noteq> []" "\<not> js_whitespace (hd s)" "\<not> js_whitespace (last s)"
  shows "trim s = s"
proof -
  from assms(1,2) have a: "dropWhile js_whitespace s = s"
    by (cases s) auto
  from assms(1,3) have b: "dropWhile js_whitespace (rev s) = rev s"
    by (cases s rule: rev_cases) auto
  show ?thesis by (simp add: trim_def a b)
qed

lemma Number_toString_hd_digit: "is_digit (hd (Number_toString n))"
  using Number_toString_digits [of n] Number_toString_nonempty [of n]
  by (cases "Number_toString n") auto

lemma Number_toString_last_digit: "is_digit (last (Number_toString n))"
  using Number_toString_digits [of n] Number_toString_nonempty [of n]
  by (cases "Number_toString n" rule: rev_cases) auto

lemma trim_numeral_ends:
  "trim (Number_toString a @ mid @ Number_toString b) =
   Number_toString a @ mid @ Number_toString b"
  by (rule trim_id)
    (simp_all add: Number_toString_nonempty is_digit_not_whitespace
      Number_toString_hd_digit Number_toString_last_digit)

lemma trim_numeral: "trim (Number_toString a) = Number_toString a"
  by (rule trim_id)
    (simp_all add: Number_toString_nonempty is_digit_not_whitespace
      Number_toString_hd_digit Number_toString_last_digit)

lemma separator_no_digit:
  "sep = CHR ''-'' \<or> sep = CHR ''.'' \<Longrightarrow> \<not> starts_with_digit (sep # r)"
  by (auto simp add: starts_with_digit_def is_digit_def less_eq_char_def)

lemma exec_one:
  "versionRegex_exec (Number_toString a) = Some (Number_toString a, None, None)"
proof -
  obtain alts where "number_alts (Number_toString a @ []) = (Number_toString a, []) # alts"
    using number_alts_Number_toString [of "[]" a] by (auto simp add: starts_with_digit_def)
  then show ?thesis
    by (simp add: versionRegex_exec_def minor_group_def patch_group_def number_alts_def)
qed

lemma exec_two:
  assumes sep: "sep = CHR ''-'' \<or> sep = CHR ''.''"
  shows "versionRegex_exec (Number_toString a @ sep # Number_toString b) =
         Some (Number_toString a, Some (Number_toString b), None)"
proof -
  obtain alts where a: "number_alts (Number_toString a @ sep # Number_toString b) =
      (Number_toString a, sep # Number_toString b) # alts"
    using number_alts_Number_toString [OF separator_no_digit [OF sep]] by blast
  obtain alts' where b: "number_alts (Number_toString b) = (Number_toString b, []) # alts'"
    using number_alts_Number_toString [of "[]" b] by (auto simp add: starts_with_digit_def)
  show ?thesis
    using sep by (auto simp add: versionRegex_exec_def minor_group_def patch_group_def a b)
qed

lemma exec_three:
  assumes sep: "sep = CHR ''-'' \<or> sep = CHR ''.''"
  shows "versionRegex_exec
           (Number_toString a @ sep # Number_toString b @ sep # Number_toString c) =
         Some (Number_toString a, Some (Number_toString b), Some (Number_toString c))"
proof -
  obtain alts where a:
    "number_alts (Number_toString a @ sep # Number_toString b @ sep # Number_toString c) =
      (Number_toString a, sep # Number_toString b @ sep # Number_toString c) # alts"
    using number_alts_Number_toString [OF separator_no_digit [OF sep]] by blast
  obtain alts' where b: "number_alts (Number_toString b @ sep # Number_toString c) =
       (Number_toString b, sep # Number_toString c) # alts'"
    using number_alts_Number_toString [OF separator_no_digit [OF sep]] by blast
  obtain alts'' where c: "number_alts (Number_toString c) = (Number_toString c, []) # alts''"
    using number_alts_Number_toString [of "[]" c] by (auto simp add: starts_with_digit_def)
  show ?thesis
    using sep by (auto simp add: versionRegex_exec_def minor_group_def patch_group_def a b c)
qed

lemma from_one: "from (Number_toString a) = Some \<lparr>major = a, minor = 0, patch = 0\<rparr>"
  by (simp add: from_def trim_numeral exec_one group_number_def parseInt_Number_toString)

lemma from_two:
  assumes "sep = CHR ''-'' \<or> sep = CHR ''.''"
  shows "from (Number_toString a @ sep # Number_toString b) =
         Some \<lparr>major = a, minor = b, patch = 0\<rparr>"
  using trim_numeral_ends [of a "[sep]" b]
  by (simp add: from_def exec_two [OF assms] group_number_def parseInt_Number_toString)

lemma from_three:
  assumes "sep = CHR ''-'' \<or> sep = CHR ''.''"
  shows "from (Number_toString a @ sep # Number_toString b @ sep # Number_toString c) =
         Some \<lparr>major = a, minor = b, patch = c\<rparr>"
  using trim_numeral_ends [of a "sep # Number_toString b @ [sep]" c]
  by (simp add: from_def exec_three [OF assms] group_number_def parseInt_Number_toString)

lemma numeral_texts:
  "Number_toString 0 = ''0''" "Number_toString 2 = ''2''" "Number_toString 4 = ''4''"
  "Number_toString 5 = ''5''" "Number_toString 7 = ''7''" "Number_toString 17 = ''17''"
  by code_simp+

section \<open>Claims about Version\<close>

text \<open>
  C1. The claim: for two inputs that both parse, \<^verbatim>\<open>Version.compare\<close> orders them
  by major, then minor, then patch, and returns 0 exactly when the triples are
  equal. The code compares the single numbers \<open>major * 100 + minor * 10 + patch\<close>
  instead, so a minor or patch component of 10 or more carries into the next
  component: \<^verbatim>\<open>1.10.0\<close> and \<^verbatim>\<open>2.0.0\<close> both parse, to different triples, the first
  one the smaller, and \<^verbatim>\<open>compare\<close> returns 0 for them, where its documentation
  promises -1 for an older first version and 0 for the same version.
\<close>

theorem compare_carries_minor_into_major:
  "from ''1.10.0'' = Some \<lparr>major = 1, minor = 10, patch = 0\<rparr> \<and>
   from ''2.0.0'' = Some \<lparr>major = 2, minor = 0, patch = 0\<rparr> \<and>
   compare localeCompare (Str ''1.10.0'') (Str ''2.0.0'') = Inr 0 \<and>
   same localeCompare (Str ''1.10.0'') (Str ''2.0.0'') = Inr True"
  by code_simp

text \<open>
  C7, as stated: a three-component version string with one separator throughout
  is printed back unchanged after parsing. \<^verbatim>\<open>toString\<close> always prints dots, so
  the dashed string \<^verbatim>\<open>1-2-3\<close>, which parses, comes back as \<^verbatim>\<open>1.2.3\<close>.
\<close>

theorem toString_from_dashes_counterexample:
  "map_option toString (from ''1-2-3'') = Some ''1.2.3'' \<and>
   map_option toString (from ''1-2-3'') \<noteq> Some ''1-2-3''"
  by code_simp

text \<open>
  C7, amended: for every version string \<open>a.b.c\<close> whose three components are
  decimal numerals without leading zeros (of numbers up to
  \<^verbatim>\<open>Number.MAX_SAFE_INTEGER\<close>) separated by dots, parsing succeeds and printing
  the parsed version gives the string back. The dashed string \<open>a-b-c\<close> of the
  same components parses to the same version and is printed with dots, as
  \<open>a.b.c\<close>.
\<close>

theorem toString_from_dotted:
  assumes "a \<le> MAX_SAFE_INTEGER" "b \<le> MAX_SAFE_INTEGER" "c \<le> MAX_SAFE_INTEGER"
  shows "map_option toString
           (from (Number_toString a @ ''.'' @ Number_toString b @ ''.'' @ Number_toString c)) =
         Some (Number_toString a @ ''.'' @ Number_toString b @ ''.'' @ Number_toString c) \<and>
         from (Number_toString a @ ''-'' @ Number_toString b @ ''-'' @ Number_toString c) =
         from (Number_toString a @ ''.'' @ Number_toString b @ ''.'' @ Number_toString c) \<and>
         map_option toString
           (from (Number_toString a @ ''-'' @ Number_toString b @ ''-'' @ Number_toString c)) =
         Some (Number_toString a @ ''.'' @ Number_toString b @ ''.'' @ Number_toString c)"
  using from_three [of "CHR ''.''" a b c] from_three [of "CHR ''-''" a b c]
  by (simp add: toString_def)

theorem toString_from_dotted_witness:
  "(17::nat) \<le> MAX_SAFE_INTEGER \<and> (5::nat) \<le> MAX_SAFE_INTEGER \<and>
   (2::nat) \<le> MAX_SAFE_INTEGER \<and>
   map_option toString (from ''17.5.2'') = Some ''17.5.2'' \<and>
   from ''17-5-2'' = from ''17.5.2'' \<and>
   map_option toString (from ''17-5-2'') = Some ''17.5.2''"
  using toString_from_dotted [of 17 5 2]
  by (simp add: MAX_SAFE_INTEGER_def numeral_texts)

text \<open>
  C10. The claim: in every accepted input with fewer than three components the
  components left out are 0. The pattern refers back to the separator with
  \<^verbatim>\<open>\k<Separator>\<close>, and a back-reference to a group that took no part in the
  match matches the empty string. So the input \<^verbatim>\<open>01\<close>, which has no separator
  at all, is not rejected for its leading zero, as the comments at the pattern
  and the format \<^verbatim>\<open>x[.y[.z]]\<close> of the documentation require: it matches with
  \<^verbatim>\<open>Major\<close> 0 and \<^verbatim>\<open>Patch\<close> 1 and parses to the version \<open>(0, 0, 1)\<close>, whose patch
  is not 0. Likewise \<^verbatim>\<open>0123\<close> parses to \<open>(0, 0, 123)\<close>.
\<close>

theorem from_accepts_leading_zero:
  "versionRegex_exec ''01'' = Some (''0'', None, Some ''1'') \<and>
   from ''01'' = Some \<lparr>major = 0, minor = 0, patch = 1\<rparr> \<and>
   from ''0123'' = Some \<lparr>major = 0, minor = 0, patch = 123\<rparr> \<and>
   from ''1'' = Some \<lparr>major = 1, minor = 0, patch = 0\<rparr>"
  by code_simp

text \<open>
  C3, as stated: two strings that both fail to parse compare as 0 when they are
  equal up to letter case and accents. The code asks the platform for
  \<^verbatim>\<open>sensitivity: 'accent'\<close>, which ignores letter case and keeps accents apart:
  \<^verbatim>\<open>Eclair\<close> written with an accented capital E (code unit 201) and plain
  \<^verbatim>\<open>Eclair\<close> are equal up to case and accents, neither parses, and \<^verbatim>\<open>compare\<close>
  throws.
\<close>

theorem compare_accented_codename_counterexample:
  "from (CHR 0xC9 # ''clair'') = None \<and> from ''Eclair'' = None \<and>
   case_accent_insensitive_equal (CHR 0xC9 # ''clair'') ''Eclair'' \<and>
   compare localeCompare_accent (Str (CHR 0xC9 # ''clair'')) (Str ''Eclair'') =
     Inl (Error ''Comparing 2 codename versions is not supported.'')"
proof -
  have "from (CHR 0xC9 # ''clair'') = None" "from ''Eclair'' = None"
    by code_simp+
  moreover have "case_accent_insensitive_equal (CHR 0xC9 # ''clair'') ''Eclair''"
    unfolding case_accent_insensitive_equal_def
    by (simp add: strip_accent_def lower_case_def) code_simp
  moreover have
    "compare localeCompare_accent (Str (CHR 0xC9 # ''clair'')) (Str ''Eclair'') =
       Inl (Error ''Comparing 2 codename versions is not supported.'')"
    by code_simp
  ultimately show ?thesis by blast
qed

text \<open>
  C3, amended: for strings \<open>a\<close> and \<open>b\<close>, if neither parses, \<^verbatim>\<open>compare\<close> returns 0
  when the platform's \<^verbatim>\<open>localeCompare\<close> with \<^verbatim>\<open>sensitivity: 'accent'\<close> finds them
  equal (letter case ignored, accents and base letters significant) and throws
  the unsupported-comparison error otherwise; if only \<open>a\<close> fails to parse it
  returns 1, and if only \<open>b\<close> fails to parse it returns -1.
\<close>

theorem compare_with_codenames:
  "(from a = None \<and> from b = None \<longrightarrow>
      compare localeCompare (Str a) (Str b) =
        (if localeCompare a b = 0 then Inr 0
         else Inl (Error ''Comparing 2 codename versions is not supported.''))) \<and>
   (from a = None \<and> from b \<noteq> None \<longrightarrow> compare localeCompare (Str a) (Str b) = Inr 1) \<and>
   (from a \<noteq> None \<and> from b = None \<longrightarrow> compare localeCompare (Str a) (Str b) = Inr (- 1))"
  by (auto simp add: compare_def input_version_def input_toString_def)

theorem compare_with_codenames_witness:
  "from ''Tiramisu'' = None \<and> from ''tiramisu'' = None \<and> from ''Sv2'' = None \<and>
   from ''30'' \<noteq> None \<and>
   compare localeCompare_accent (Str ''Tiramisu'') (Str ''tiramisu'') = Inr 0 \<and>
   compare localeCompare_accent (Str ''Tiramisu'') (Str ''Sv2'') =
     Inl (Error ''Comparing 2 codename versions is not supported.'') \<and>
   compare localeCompare_accent (Str ''Tiramisu'') (Str ''30'') = Inr 1 \<and>
   compare localeCompare_accent (Str ''30'') (Str ''Tiramisu'') = Inr (- 1)"
proof -
  have n: "from ''Tiramisu'' = None" "from ''tiramisu'' = None" "from ''Sv2'' = None"
    by code_simp+
  have p: "from ''30'' \<noteq> None"
    by code_simp
  have l: "localeCompare_accent ''Tiramisu'' ''tiramisu'' = 0"
    "localeCompare_accent ''Tiramisu'' ''Sv2'' \<noteq> 0"
    by code_simp+
  show ?thesis
    using n p l
      compare_with_codenames [of "''Tiramisu''" "''tiramisu''" localeCompare_accent]
      compare_with_codenames [of "''Tiramisu''" "''Sv2''" localeCompare_accent]
      compare_with_codenames [of "''Tiramisu''" "''30''" localeCompare_accent]
      compare_with_codenames [of "''30''" "''Tiramisu''" localeCompare_accent]
    by simp
qed

section \<open>The runtime label\<close>

lemma replace_first_at_start:
  "pat \<noteq> [] \<Longrightarrow> replace_first pat rep (pat @ t) = rep @ t"
  by (cases pat) simp_all

lemma replace_first_char:
  "replace_first [x] rep t =
     (if x \<in> set t
      then takeWhile (\<lambda>c. c \<noteq> x) t @ rep @ tl (dropWhile (\<lambda>c. c \<noteq> x) t)
      else t)"
  by (induction t) auto

lemma replace_dashes_none: "CHR ''-'' \<notin> set t \<Longrightarrow> replace_dashes t = t"
  by (induction t) (auto simp add: replace_dashes_def)

lemma replace_dashes_append:
  "replace_dashes (xs @ ys) = replace_dashes xs @ replace_dashes ys"
  by (simp add: replace_dashes_def)

lemma replace_dashes_dash: "replace_dashes (CHR ''-'' # t) = CHR ''.'' # replace_dashes t"
  by (simp add: replace_dashes_def)

lemma numeral_no_dash: "CHR ''-'' \<notin> set (Number_toString n)"
proof
  assume "CHR ''-'' \<in> set (Number_toString n)"
  with Number_toString_digits [of n] have "is_digit (CHR ''-'')"
    by (simp add: list_all_iff)
  then show False
    by (simp add: is_digit_def less_eq_char_def)
qed

lemma replace_dashes_numeral: "replace_dashes (Number_toString n) = Number_toString n"
  by (rule replace_dashes_none) (rule numeral_no_dash)

lemma label_of_suffix:
  "runtimeId (IOSSimulatorDevice_new n u s (''com.apple.CoreSimulator.SimRuntime.'' @ t) a) =
     (if CHR ''-'' \<in> set t
      then takeWhile (\<lambda>c. c \<noteq> CHR ''-'') t @ '' '' @
           replace_dashes (tl (dropWhile (\<lambda>c. c \<noteq> CHR ''-'') t))
      else t)"
proof -
  have strip: "replace_first ''com.apple.CoreSimulator.SimRuntime.'' []
                 (''com.apple.CoreSimulator.SimRuntime.'' @ t) = t"
    using replace_first_at_start [of "''com.apple.CoreSimulator.SimRuntime.''" "[]" t]
    by simp
  have head: "replace_dashes (takeWhile (\<lambda>c. c \<noteq> CHR ''-'') t) =
              takeWhile (\<lambda>c. c \<noteq> CHR ''-'') t"
    by (rule replace_dashes_none) (auto dest: set_takeWhileD)
  have space: "replace_dashes '' '' = '' ''"
    by (simp add: replace_dashes_def)
  show ?thesis
    unfolding IOSSimulatorDevice_new_def Let_def strip
    by (simp add: replace_first_char replace_dashes_append head space replace_dashes_none
        del: append_Cons)
qed

lemma label_of_platform:
  assumes "CHR ''-'' \<notin> set platform"
  shows "runtimeId (IOSSimulatorDevice_new n u s
           (''com.apple.CoreSimulator.SimRuntime.'' @ platform @ ''-'' @ rest) a) =
         platform @ '' '' @ replace_dashes rest"
proof -
  have tw: "takeWhile (\<lambda>c. c \<noteq> CHR ''-'') (platform @ ''-'' @ rest) = platform"
    using assms by (subst takeWhile_append2) auto
  have dw: "dropWhile (\<lambda>c. c \<noteq> CHR ''-'') (platform @ ''-'' @ rest) = ''-'' @ rest"
    using assms by (subst dropWhile_append2) auto
  show ?thesis
    unfolding label_of_suffix tw dw by simp
qed

section \<open>Claims about IOSSimulatorDevice\<close>

text \<open>
  C8. For a runtime identifier that starts with
  \<^verbatim>\<open>com.apple.CoreSimulator.SimRuntime.\<close>, the constructor labels the device with
  the rest of the identifier in which the first dash is a space and every later
  dash a dot. For \<^verbatim>\<open><Platform>-<Major>-<Minor>\<close> with a dash-free platform name that
  is \<^verbatim>\<open><Platform> <Major>.<Minor>\<close>, with \<^verbatim>\<open>.<Patch>\<close> after it when there is a
  patch; \<^verbatim>\<open>iOS-17-5\<close> gives \<^verbatim>\<open>iOS 17.5\<close>.
\<close>

theorem constructor_runtime_label:
  "runtimeId (IOSSimulatorDevice_new n u s (''com.apple.CoreSimulator.SimRuntime.'' @ t) a) =
     (if CHR ''-'' \<in> set t
      then takeWhile (\<lambda>c. c \<noteq> CHR ''-'') t @ '' '' @
           replace_dashes (tl (dropWhile (\<lambda>c. c \<noteq> CHR ''-'') t))
      else t) \<and>
   (CHR ''-'' \<notin> set platform \<longrightarrow>
      runtimeId (IOSSimulatorDevice_new n u s
        (''com.apple.CoreSimulator.SimRuntime.'' @ platform @ ''-'' @ Number_toString mj @
         ''-'' @ Number_toString mn) a) =
        platform @ '' '' @ Number_toString mj @ ''.'' @ Number_toString mn \<and>
      runtimeId (IOSSimulatorDevice_new n u s
        (''com.apple.CoreSimulator.SimRuntime.'' @ platform @ ''-'' @ Number_toString mj @
         ''-'' @ Number_toString mn @ ''-'' @ Number_toString pt) a) =
        platform @ '' '' @ Number_toString mj @ ''.'' @ Number_toString mn @ ''.'' @
        Number_toString pt) \<and>
   runtimeId (IOSSimulatorDevice_new n u s ''com.apple.CoreSimulator.SimRuntime.iOS-17-5'' a) =
     ''iOS 17.5''"
proof -
  have ex: "runtimeId (IOSSimulatorDevice_new n u s
              ''com.apple.CoreSimulator.SimRuntime.iOS-17-5'' a) = ''iOS 17.5''"
    using label_of_platform [of "''iOS''" n u s "''17-5''" a]
    by (simp add: replace_dashes_def)
  have two: "runtimeId (IOSSimulatorDevice_new n u s
        (''com.apple.CoreSimulator.SimRuntime.'' @ platform @ ''-'' @ Number_toString mj @
         ''-'' @ Number_toString mn) a) =
        platform @ '' '' @ Number_toString mj @ ''.'' @ Number_toString mn"
    if "CHR ''-'' \<notin> set platform"
    using label_of_platform [OF that, of n u s
        "Number_toString mj @ ''-'' @ Number_toString mn" a]
    by (simp add: replace_dashes_append replace_dashes_numeral replace_dashes_dash)
  have three: "runtimeId (IOSSimulatorDevice_new n u s
        (''com.apple.CoreSimulator.SimRuntime.'' @ platform @ ''-'' @ Number_toString mj @
         ''-'' @ Number_toString mn @ ''-'' @ Number_toString pt) a) =
        platform @ '' '' @ Number_toString mj @ ''.'' @ Number_toString mn @ ''.'' @
        Number_toString pt"
    if "CHR ''-'' \<notin> set platform"
    using label_of_platform [OF that, of n u s
        "Number_toString mj @ ''-'' @ Number_toString mn @ ''-'' @ Number_toString pt" a]
    by (simp add: replace_dashes_append replace_dashes_numeral replace_dashes_dash)
  show ?thesis
    using ex label_of_suffix [of n u s t a] two three by blast
qed

theorem constructor_runtime_label_witness:
  "CHR ''-'' \<in> set ''watchOS-10-2'' \<and> CHR ''-'' \<notin> set ''Plain'' \<and>
   CHR ''-'' \<notin> set ''tvOS'' \<and>
   runtimeId (IOSSimulatorDevice_new JNull JNull JNull
     ''com.apple.CoreSimulator.SimRuntime.watchOS-10-2'' JNull) = ''watchOS 10.2'' \<and>
   runtimeId (IOSSimulatorDevice_new JNull JNull JNull
     ''com.apple.CoreSimulator.SimRuntime.Plain'' JNull) = ''Plain'' \<and>
   runtimeId (IOSSimulatorDevice_new JNull JNull JNull
     ''com.apple.CoreSimulator.SimRuntime.tvOS-17-5-2'' JNull) = ''tvOS 17.5.2''"
proof -
  have a: "runtimeId (IOSSimulatorDevice_new JNull JNull JNull
     ''com.apple.CoreSimulator.SimRuntime.watchOS-10-2'' JNull) = ''watchOS 10.2''"
    using constructor_runtime_label [where t = "''watchOS-10-2''" and n = JNull and u = JNull
        and s = JNull and a = JNull]
    by (simp add: replace_dashes_def)
  have b: "runtimeId (IOSSimulatorDevice_new JNull JNull JNull
     ''com.apple.CoreSimulator.SimRuntime.Plain'' JNull) = ''Plain''"
    using constructor_runtime_label [where t = "''Plain''" and n = JNull and u = JNull
        and s = JNull and a = JNull]
    by simp
  have c: "runtimeId (IOSSimulatorDevice_new JNull JNull JNull
     ''com.apple.CoreSimulator.SimRuntime.tvOS-17-5-2'' JNull) = ''tvOS 17.5.2''"
    using constructor_runtime_label [where platform = "''tvOS''" and mj = 17 and mn = 5
        and pt = 2 and n = JNull and u = JNull and s = JNull and a = JNull and t = "[]"]
    by (simp add: numeral_texts)
  show ?thesis using a b c by simp
qed

section \<open>The device listing\<close>






section \<open>Claims about the device listing\<close>



text \<open>
  C5, as stated: a JSON object without the key \<^verbatim>\<open>devices\<close> always gives the empty
  sequence. The pattern is built from the allow-list before the text is parsed,
  and entries of the allow-list are pattern text: with the single entry \<^verbatim>\<open>(\<close> the
  pattern is not well formed, \<^verbatim>\<open>new RegExp\<close> throws, and the call fails also for
  the text \<^verbatim>\<open>{}\<close>.
\<close>

theorem parseJSONString_no_devices_counterexample:
  "example_JSON_parse ''{}'' = Some (JObject []) \<and>
   runtimeMatchRegex_source [''(''] = ''.SimRuntime.(()'' \<and>
   parseJSONString example_RegExp example_JSON_parse ''{}'' [''(''] = Inl SyntaxError"
  by (simp add: example_JSON_parse_def runtimeMatchRegex_source_def example_RegExp_def
      parseJSONString_def)

text \<open>
  C5, amended: \<^verbatim>\<open>parseJSONString\<close> fails with a syntax error for every text that is
  not well-formed JSON; and whenever the allow-list joins into a well-formed
  pattern, it returns the empty sequence for every text that parses to an object
  without the key \<^verbatim>\<open>devices\<close>.
\<close>

theorem parseJSONString_malformed_or_no_devices:
  "(JSON_parse jsonString = None \<longrightarrow>
      parseJSONString RegExp JSON_parse jsonString supportedRuntimes = Inl SyntaxError) \<and>
   (RegExp (runtimeMatchRegex_source supportedRuntimes) \<noteq> None \<and>
    JSON_parse jsonString = Some (JObject props) \<and> ''devices'' \<notin> fst ` set props \<longrightarrow>
      parseJSONString RegExp JSON_parse jsonString supportedRuntimes = Inr [])"
proof -
  have absent: "map_of props ''devices'' = None" if "''devices'' \<notin> fst ` set props"
    using that by (simp add: map_of_eq_None_iff)
  show ?thesis
    by (auto simp add: parseJSONString_def get_prop_def truthy_def object_keys_def absent
        split: option.splits)
qed

theorem parseJSONString_malformed_or_no_devices_witness:
  "example_JSON_parse ''{'' = None \<and>
   parseJSONString example_RegExp example_JSON_parse ''{'' [''iOS-17-5'', ''iOS-16-4''] =
     Inl SyntaxError \<and>
   example_RegExp (runtimeMatchRegex_source [''iOS-17-5'', ''iOS-16-4'']) \<noteq> None \<and>
   example_JSON_parse ''{}'' = Some (JObject []) \<and> ''devices'' \<notin> fst ` set [] \<and>
   parseJSONString example_RegExp example_JSON_parse ''{}'' [''iOS-17-5'', ''iOS-16-4''] =
     Inr []"
proof -
  have a: "example_JSON_parse ''{'' = None" "example_JSON_parse ''{}'' = Some (JObject [])"
    by (simp_all add: example_JSON_parse_def)
  have b: "example_RegExp (runtimeMatchRegex_source [''iOS-17-5'', ''iOS-16-4'']) \<noteq> None"
    by (simp add: example_RegExp_def runtimeMatchRegex_source_def)
  show ?thesis
    using a b
      parseJSONString_malformed_or_no_devices [of example_JSON_parse "''{''" example_RegExp
        "[''iOS-17-5'', ''iOS-16-4'']" "[]"]
      parseJSONString_malformed_or_no_devices [of example_JSON_parse "''{}''" example_RegExp
        "[''iOS-17-5'', ''iOS-16-4'']" "[]"]
    by simp
qed

section \<open>The requirement checks\<close>

lemma WrappedPromise_returns:
  "returns_promise req \<Longrightarrow>
   WrappedPromise stepDuration req =
     Inr (Inr \<lparr>message = settles_with req,
               status = (if fulfils req then ''fulfilled'' else ''rejected''),
               duration = stepDuration req, requirement = req\<rparr>)"
  by (simp add: WrappedPromise_def returns_promise_def fulfils_def settles_with_def
      split: check_call.splits sum.splits)

lemma WrappedPromise_throws:
  "\<not> returns_promise req \<Longrightarrow> \<exists>e. WrappedPromise stepDuration req = Inl e"
  by (simp add: WrappedPromise_def returns_promise_def split: check_call.splits)

lemma push_wrapped_returns:
  "list_all returns_promise requirements \<Longrightarrow>
   push_wrapped stepDuration requirements =
     Inr (map (\<lambda>req. Inr \<lparr>message = settles_with req,
                            status = (if fulfils req then ''fulfilled'' else ''rejected''),
                            duration = stepDuration req, requirement = req\<rparr>) requirements)"
  by (induction requirements) (simp_all add: WrappedPromise_returns)

lemma push_wrapped_throws:
  "\<not> list_all returns_promise requirements \<Longrightarrow>
   \<exists>e. push_wrapped stepDuration requirements = Inl e"
proof (induction requirements)
  case Nil
  then show ?case by simp
next
  case (Cons req requirements)
  show ?case
  proof (cases "returns_promise req")
    case True
    with Cons obtain e where "push_wrapped stepDuration requirements = Inl e"
      by auto
    with True show ?thesis
      by (simp add: WrappedPromise_returns)
  next
    case False
    then obtain e where "WrappedPromise stepDuration req = Inl e"
      using WrappedPromise_throws by blast
    then show ?thesis by simp
  qed
qed

lemma Promise_all_fulfilled: "Promise_all (map (\<lambda>x. Inr (f x)) xs) = Inr (map f xs)"
  by (induction xs) simp_all

lemma record_result_wrapped:
  "record_result passed failed report
     \<lparr>message = settles_with req,
      status = (if fulfils req then ''fulfilled'' else ''rejected''),
      duration = stepDuration req, requirement = req\<rparr> =
   \<lparr>hasMetAllRequirements = (hasMetAllRequirements report \<and> fulfils req),
    tests = tests report @ [outcome_of passed failed stepDuration req]\<rparr>"
  by (simp add: record_result_def outcome_of_def)

lemma foldl_record_result:
  "foldl (record_result passed failed) report
     (map (\<lambda>req. \<lparr>message = settles_with req,
                   status = (if fulfils req then ''fulfilled'' else ''rejected''),
                   duration = stepDuration req, requirement = req\<rparr>) requirements) =
   \<lparr>hasMetAllRequirements = (hasMetAllRequirements report \<and> list_all fulfils requirements),
    tests = tests report @ map (outcome_of passed failed stepDuration) requirements\<rparr>"
proof (induction requirements arbitrary: report)
  case Nil
  then show ?case by simp
next
  case (Cons req requirements)
  show ?case
    by (simp only: list.map foldl_Cons record_result_wrapped Cons.IH) simp
qed

lemma executeSetup_report:
  assumes "list_all returns_promise requirements"
  shows "executeSetup passed failed stepDuration requirements =
     Inr \<lparr>hasMetAllRequirements = list_all fulfils requirements,
          tests = map (outcome_of passed failed stepDuration) requirements\<rparr>"
proof -
  let ?wrapped = "\<lambda>req. \<lparr>message = settles_with req,
                         status = (if fulfils req then ''fulfilled'' else ''rejected''),
                         duration = stepDuration req, requirement = req\<rparr>"
  have pushed: "push_wrapped stepDuration requirements =
      Inr (map (\<lambda>req. Inr (?wrapped req)) requirements)"
    by (rule push_wrapped_returns [OF assms])
  have all: "Promise_all (map (\<lambda>req. Inr (?wrapped req)) requirements) =
      Inr (map ?wrapped requirements)"
    by (rule Promise_all_fulfilled)
  have folded: "foldl (record_result passed failed)
      \<lparr>hasMetAllRequirements = True, tests = []\<rparr> (map ?wrapped requirements) =
      \<lparr>hasMetAllRequirements = list_all fulfils requirements,
       tests = map (outcome_of passed failed stepDuration) requirements\<rparr>"
    using foldl_record_result
      [of passed failed "\<lparr>hasMetAllRequirements = True, tests = []\<rparr>" stepDuration
        requirements]
    by simp
  show ?thesis
    unfolding executeSetup_def pushed by (simp only: sum.case all folded)
qed

lemma executeSetup_throws:
  assumes "\<not> list_all returns_promise requirements"
  shows "\<exists>e. executeSetup passed failed stepDuration requirements = Inl e"
  using push_wrapped_throws [OF assms, of stepDuration]
  by (auto simp add: executeSetup_def)

section \<open>Claims about the requirement checks\<close>

text \<open>
  C2, as stated: for every list of requirements \<^verbatim>\<open>executeSetup\<close> records one
  outcome per requirement. \<^verbatim>\<open>WrappedPromise\<close> calls \<^verbatim>\<open>checkFunction()\<close> outside its
  chain of handlers, so a check function that throws before it returns a
  promise makes \<^verbatim>\<open>executeSetup\<close> reject: with three requirements of which the
  second throws there is no report and no outcome at all.
\<close>

theorem executeSetup_throwing_check_counterexample:
  "length example_requirements_throwing = 3 \<and>
   executeSetup ''Passed'' ''Failed'' example_stepDuration example_requirements_throwing =
     Inl (Error ''xcrun is missing'')"
  by (simp add: example_requirements_throwing_def example_requirement_def executeSetup_def
      WrappedPromise_def)

text \<open>
  C2, amended: for every list of requirements whose check functions all return
  a promise, \<^verbatim>\<open>executeSetup\<close> returns a report with one outcome per requirement,
  in the order of the requirements, each with the title of its requirement, the
  way its check settled and whether it fulfilled; a check that rejects neither
  removes an outcome nor makes the call fail. \<^verbatim>\<open>hasMetAllRequirements\<close> is true
  exactly when every check fulfilled. With three requirements of which one
  rejects, the report has three outcomes and \<^verbatim>\<open>hasMetAllRequirements\<close> is false.
  When some check function throws instead of returning a promise,
  \<^verbatim>\<open>executeSetup\<close> rejects and there is no report.
\<close>

theorem executeSetup_records_every_outcome:
  "(list_all returns_promise requirements \<longrightarrow>
     (\<exists>report.
        executeSetup passed failed stepDuration requirements = Inr report \<and>
        length (tests report) = length requirements \<and>
        map case_title (tests report) = map title requirements \<and>
        map case_message (tests report) = map settles_with requirements \<and>
        map hasPassed (tests report) = map fulfils requirements \<and>
        (hasMetAllRequirements report \<longleftrightarrow> (\<forall>req \<in> set requirements. fulfils req)) \<and>
        (length requirements = 3 \<and> (\<exists>req \<in> set requirements. \<not> fulfils req) \<longrightarrow>
           \<not> hasMetAllRequirements report \<and> length (tests report) = 3))) \<and>
   (\<not> list_all returns_promise requirements \<longrightarrow>
     (\<exists>e. executeSetup passed failed stepDuration requirements = Inl e))"
proof -
  have "\<exists>e. executeSetup passed failed stepDuration requirements = Inl e"
    if "\<not> list_all returns_promise requirements"
    using that by (rule executeSetup_throws)
  moreover have "\<exists>report.
        executeSetup passed failed stepDuration requirements = Inr report \<and>
        length (tests report) = length requirements \<and>
        map case_title (tests report) = map title requirements \<and>
        map case_message (tests report) = map settles_with requirements \<and>
        map hasPassed (tests report) = map fulfils requirements \<and>
        (hasMetAllRequirements report \<longleftrightarrow> (\<forall>req \<in> set requirements. fulfils req)) \<and>
        (length requirements = 3 \<and> (\<exists>req \<in> set requirements. \<not> fulfils req) \<longrightarrow>
           \<not> hasMetAllRequirements report \<and> length (tests report) = 3)"
    if "list_all returns_promise requirements"
    by (simp add: executeSetup_report [OF that] outcome_of_def list_all_iff comp_def)
  ultimately show ?thesis by blast
qed

theorem executeSetup_records_every_outcome_witness:
  "list_all returns_promise example_requirements \<and>
   length example_requirements = 3 \<and> (\<exists>req \<in> set example_requirements. \<not> fulfils req) \<and>
   (\<exists>report.
      executeSetup ''Passed'' ''Failed'' example_stepDuration example_requirements =
        Inr report \<and>
      \<not> hasMetAllRequirements report \<and> length (tests report) = 3 \<and>
      map hasPassed (tests report) = [True, False, True] \<and>
      map case_title (tests report) = [''Xcode'', ''Runtime'', ''macOS'']) \<and>
   \<not> list_all returns_promise example_requirements_throwing \<and>
   isl (executeSetup ''Passed'' ''Failed'' example_stepDuration example_requirements_throwing)"
proof -
  have promises: "list_all returns_promise example_requirements"
    by (simp add: example_requirements_def example_requirement_def returns_promise_def)
  have three: "length example_requirements = 3"
    by (simp add: example_requirements_def)
  have one: "\<exists>req \<in> set example_requirements. \<not> fulfils req"
    by (simp add: example_requirements_def example_requirement_def fulfils_def)
  have passes: "map fulfils example_requirements = [True, False, True]"
    by (simp add: example_requirements_def example_requirement_def fulfils_def)
  have titles: "map title example_requirements = [''Xcode'', ''Runtime'', ''macOS'']"
    by (simp add: example_requirements_def example_requirement_def)
  have throwing: "\<not> list_all returns_promise example_requirements_throwing"
    by (simp add: example_requirements_throwing_def example_requirement_def
        returns_promise_def)
  obtain report where
    "executeSetup ''Passed'' ''Failed'' example_stepDuration example_requirements = Inr report"
    "\<not> hasMetAllRequirements report" "length (tests report) = 3"
    "map hasPassed (tests report) = map fulfils example_requirements"
    "map case_title (tests report) = map title example_requirements"
    using executeSetup_records_every_outcome
      [of example_requirements "''Passed''" "''Failed''" example_stepDuration]
      promises three one
    by blast
  moreover have
    "isl (executeSetup ''Passed'' ''Failed'' example_stepDuration example_requirements_throwing)"
    using executeSetup_records_every_outcome
      [of example_requirements_throwing "''Passed''" "''Failed''" example_stepDuration]
      throwing
    by auto
  ultimately show ?thesis
    using promises three one passes titles throwing by auto
qed

section \<open>Runs of the launchers\<close>

lemma in_calls_and_then:
  "c \<in> set (fst (and_then p f)) \<longleftrightarrow>
     c \<in> set (fst p) \<or> (\<exists>x. snd p = Inr x \<and> c \<in> set (fst (f x)))"
  by (cases p) (auto simp add: and_then_def split: sum.splits prod.splits)

lemma settles_and_then:
  "snd (and_then p f) = Inr y \<longleftrightarrow> (\<exists>x. snd p = Inr x \<and> snd (f x) = Inr y)"
  by (cases p) (auto simp add: and_then_def split: sum.splits prod.splits)

lemma in_calls_on_error:
  "c' \<in> set (fst (on_error p c)) \<longleftrightarrow> c' \<in> set (fst p) \<or> (isl (snd p) \<and> c' = c)"
  by (cases p) (auto simp add: on_error_def split: sum.splits)

lemma settles_on_error: "snd (on_error p c) = snd p"
  by (cases p) (auto simp add: on_error_def split: sum.splits)

lemma run_call: "fst (call c settles) = [c]" "snd (call c settles) = settles"
  by (simp_all add: call_def)

lemma run_effect: "fst (effect c) = [c]" "snd (effect c) = Inr ()"
  by (simp_all add: effect_def)

lemmas run_simps =
  in_calls_and_then settles_and_then in_calls_on_error settles_on_error run_call run_effect

lemma android_launch_target_shape:
  "\<exists>url msg args act addr prt.
     fst (android_launch_target au pu compName projectDir appBundlePath targetApp appConfig
       serverPort emulatorPort) = [LaunchURLIntent url emulatorPort] \<or>
     fst (android_launch_target au pu compName projectDir appBundlePath targetApp appConfig
       serverPort emulatorPort) =
       [StopCliAction msg,
        LaunchNativeApp compName projectDir appBundlePath targetApp args act emulatorPort
          addr prt]"
proof (cases "isTargetingBrowser pu targetApp")
  case True
  then show ?thesis
    by (simp add: android_launch_target_def Let_def call_def)
next
  case False
  then show ?thesis
    by (simp add: android_launch_target_def Let_def call_def effect_def and_then_def)
qed

lemma android_launch_target_ports:
  assumes "c \<in> set (fst (android_launch_target au pu compName projectDir appBundlePath
      targetApp appConfig serverPort emulatorPort))"
    and "port_addressed c = Some p"
  shows "p = emulatorPort"
  using assms android_launch_target_shape
    [of au pu compName projectDir appBundlePath targetApp appConfig serverPort emulatorPort]
  by (auto simp add: port_addressed_def)

lemma android_launch_target_launches:
  "\<exists>c \<in> set (fst (android_launch_target au pu compName projectDir appBundlePath targetApp
      appConfig serverPort emulatorPort)).
     port_addressed c = Some emulatorPort \<and> c \<noteq> PollDeviceStatus emulatorPort"
  using android_launch_target_shape
    [of au pu compName projectDir appBundlePath targetApp appConfig serverPort emulatorPort]
  by (auto simp add: port_addressed_def)

lemma android_after_start_ports:
  assumes "c \<in> set (fst (android_after_start au pu emuName compName projectDir appBundlePath
      targetApp appConfig serverPort actualPort))"
    and "port_addressed c = Some p"
  shows "p = actualPort"
  using assms
  by (auto simp add: android_after_start_def Let_def run_simps port_addressed_def
      dest: android_launch_target_ports)

lemma android_after_start_launches:
  assumes "snd (android_after_start au pu emuName compName projectDir appBundlePath
      targetApp appConfig serverPort actualPort) = Inr ()"
  shows "PollDeviceStatus actualPort \<in> set (fst (android_after_start au pu emuName compName
           projectDir appBundlePath targetApp appConfig serverPort actualPort)) \<and>
         (\<exists>c \<in> set (fst (android_after_start au pu emuName compName projectDir appBundlePath
              targetApp appConfig serverPort actualPort)).
            port_addressed c = Some actualPort \<and> c \<noteq> PollDeviceStatus actualPort)"
proof -
  from assms have polled: "pollDeviceStatus au actualPort = Inr ()"
    by (auto simp add: android_after_start_def Let_def run_simps)
  obtain c where "c \<in> set (fst (android_launch_target au pu compName projectDir appBundlePath
      targetApp appConfig serverPort actualPort))"
    "port_addressed c = Some actualPort" "c \<noteq> PollDeviceStatus actualPort"
    using android_launch_target_launches by blast
  with polled show ?thesis
    by (auto simp add: android_after_start_def Let_def run_simps)
qed

lemma android_chain_ports:
  assumes "c \<in> set (fst (android_chain au pu emuName emuImage androidApi device abi'
      emulatorPort compName projectDir appBundlePath targetApp appConfig serverPort))"
    and "port_addressed c = Some p"
  shows "StartEmulator emuName emulatorPort \<in> set (fst (android_chain au pu emuName emuImage
           androidApi device abi' emulatorPort compName projectDir appBundlePath targetApp
           appConfig serverPort)) \<and>
         startEmulator au emuName emulatorPort = Inr p"
proof -
  from assms obtain result u actualPort where
    h: "hasEmulator au emuName = Inr result"
    and cr: "snd (if \<not> result
        then and_then (effect (StartCliAction ''Launching'' (''Creating device '' @ emuName)))
               (\<lambda>_. call (CreateNewVirtualDevice emuName emuImage androidApi device abi')
                       (createNewVirtualDevice au emuName emuImage androidApi device abi'))
        else effect (StartCliAction ''Launching'' (''Found device '' @ emuName))) = Inr u"
    and s: "startEmulator au emuName emulatorPort = Inr actualPort"
    and c: "c \<in> set (fst (android_after_start au pu emuName compName projectDir appBundlePath
      targetApp appConfig serverPort actualPort))"
    unfolding android_chain_def
    by (auto simp add: run_simps port_addressed_def split: if_splits)
  from c assms(2) have "p = actualPort"
    by (rule android_after_start_ports)
  with h cr s show ?thesis
    unfolding android_chain_def
    by (auto simp add: run_simps)
qed

lemma android_chain_launches:
  assumes "snd (android_chain au pu emuName emuImage androidApi device abi' emulatorPort
      compName projectDir appBundlePath targetApp appConfig serverPort) = Inr ()"
  shows "\<exists>actualPort.
           startEmulator au emuName emulatorPort = Inr actualPort \<and>
           PollDeviceStatus actualPort \<in> set (fst (android_chain au pu emuName emuImage
             androidApi device abi' emulatorPort compName projectDir appBundlePath targetApp
             appConfig serverPort)) \<and>
           (\<exists>c \<in> set (fst (android_chain au pu emuName emuImage androidApi device abi'
                emulatorPort compName projectDir appBundlePath targetApp appConfig serverPort)).
              port_addressed c = Some actualPort \<and> c \<noteq> PollDeviceStatus actualPort)"
proof -
  from assms obtain result u actualPort where
    h: "hasEmulator au emuName = Inr result"
    and cr: "snd (if \<not> result
        then and_then (effect (StartCliAction ''Launching'' (''Creating device '' @ emuName)))
               (\<lambda>_. call (CreateNewVirtualDevice emuName emuImage androidApi device abi')
                       (createNewVirtualDevice au emuName emuImage androidApi device abi'))
        else effect (StartCliAction ''Launching'' (''Found device '' @ emuName))) = Inr u"
    and s: "startEmulator au emuName emulatorPort = Inr actualPort"
    and a: "snd (android_after_start au pu emuName compName projectDir appBundlePath
      targetApp appConfig serverPort actualPort) = Inr ()"
    unfolding android_chain_def
    by (auto simp add: run_simps)
  from android_after_start_launches [OF a] obtain c where
    poll: "PollDeviceStatus actualPort \<in> set (fst (android_after_start au pu emuName compName
           projectDir appBundlePath targetApp appConfig serverPort actualPort))"
    and c: "c \<in> set (fst (android_after_start au pu emuName compName projectDir appBundlePath
              targetApp appConfig serverPort actualPort))"
      "port_addressed c = Some actualPort" "c \<noteq> PollDeviceStatus actualPort"
    by blast
  have sub: "x \<in> set (fst (android_chain au pu emuName emuImage androidApi device abi'
      emulatorPort compName projectDir appBundlePath targetApp appConfig serverPort))"
    if "x \<in> set (fst (android_after_start au pu emuName compName projectDir appBundlePath
      targetApp appConfig serverPort actualPort))" for x
    using that h cr s unfolding android_chain_def
    by (auto simp add: run_simps)
  from s sub [OF poll] sub [OF c(1)] c(2,3) show ?thesis by blast
qed

section \<open>Claims about the launchers\<close>

text \<open>
  C6. In every run of \<^verbatim>\<open>AndroidLauncher.launchPreview\<close>, each call that addresses
  an emulator port after the start (polling the boot status, launching the URL
  intent, launching the native app) addresses the port that \<^verbatim>\<open>startEmulator\<close>
  resolved with, when asked to start on the port from \<^verbatim>\<open>getNextAndroidAdbPort\<close>.
  When the run fulfils, the status was polled and the browser or the app was
  launched, both on that port.
\<close>

theorem launchPreview_uses_reported_port:
  assumes "AndroidLauncher_launchPreview au pu emulatorName compName projectDir appBundlePath
             targetApp appConfig serverPort = (calls, settles)"
  shows "(\<forall>c \<in> set calls. \<forall>p. port_addressed c = Some p \<longrightarrow>
            (\<exists>requested. getNextAndroidAdbPort au = Inr requested \<and>
               StartEmulator emulatorName requested \<in> set calls \<and>
               startEmulator au emulatorName requested = Inr p)) \<and>
         (settles = Inr () \<longrightarrow>
            (\<exists>requested actualPort.
               getNextAndroidAdbPort au = Inr requested \<and>
               startEmulator au emulatorName requested = Inr actualPort \<and>
               PollDeviceStatus actualPort \<in> set calls \<and>
               (\<exists>c \<in> set calls.
                  port_addressed c = Some actualPort \<and> c \<noteq> PollDeviceStatus actualPort)))"
proof -
  from assms have calls: "calls = fst (AndroidLauncher_launchPreview au pu emulatorName compName
      projectDir appBundlePath targetApp appConfig serverPort)"
    and settles: "settles = snd (AndroidLauncher_launchPreview au pu emulatorName compName
      projectDir appBundlePath targetApp appConfig serverPort)"
    by simp_all
  have ports: "\<exists>requested. getNextAndroidAdbPort au = Inr requested \<and>
                 StartEmulator emulatorName requested \<in> set calls \<and>
                 startEmulator au emulatorName requested = Inr p"
    if c: "c \<in> set calls" and p: "port_addressed c = Some p" for c p
  proof -
    from c p obtain pack devices requested where
      f: "findRequiredEmulatorImages au = Inr pack"
      and d: "getSupportedDevices au = Inr devices"
      and r: "getNextAndroidAdbPort au = Inr requested"
      and c': "c \<in> set (fst (android_chain au pu emulatorName
          (if platformEmulatorImage pack = [] then ''default'' else platformEmulatorImage pack)
          (platformAPI pack) (first_element devices) (abi pack) requested compName projectDir
          appBundlePath targetApp appConfig serverPort))"
      unfolding calls AndroidLauncher_launchPreview_def Let_def
      by (auto simp add: run_simps port_addressed_def)
    from android_chain_ports [OF c' p] f d r show ?thesis
      unfolding calls AndroidLauncher_launchPreview_def Let_def
      by (auto simp add: run_simps)
  qed
  have launched: "\<exists>requested actualPort.
               getNextAndroidAdbPort au = Inr requested \<and>
               startEmulator au emulatorName requested = Inr actualPort \<and>
               PollDeviceStatus actualPort \<in> set calls \<and>
               (\<exists>c \<in> set calls.
                  port_addressed c = Some actualPort \<and> c \<noteq> PollDeviceStatus actualPort)"
    if "settles = Inr ()"
  proof -
    from that obtain pack devices requested where
      f: "findRequiredEmulatorImages au = Inr pack"
      and d: "getSupportedDevices au = Inr devices"
      and r: "getNextAndroidAdbPort au = Inr requested"
      and ch: "snd (android_chain au pu emulatorName
          (if platformEmulatorImage pack = [] then ''default'' else platformEmulatorImage pack)
          (platformAPI pack) (first_element devices) (abi pack) requested compName projectDir
          appBundlePath targetApp appConfig serverPort) = Inr ()"
      unfolding settles AndroidLauncher_launchPreview_def Let_def
      by (auto simp add: run_simps)
    have sub: "x \<in> set calls"
      if "x \<in> set (fst (android_chain au pu emulatorName
          (if platformEmulatorImage pack = [] then ''default'' else platformEmulatorImage pack)
          (platformAPI pack) (first_element devices) (abi pack) requested compName projectDir
          appBundlePath targetApp appConfig serverPort))" for x
      using that f d r unfolding calls AndroidLauncher_launchPreview_def Let_def
      by (auto simp add: run_simps)
    from android_chain_launches [OF ch] r sub show ?thesis by blast
  qed
  from ports launched show ?thesis by blast
qed

theorem launchPreview_uses_reported_port_witness:
  "AndroidLauncher_launchPreview example_AndroidUtils example_PreviewUtils ''emu''
     ''helloWorld'' ''/p'' None ''browser'' None ''3333'' =
     ([FindRequiredEmulatorImages, GetSupportedDevices, GetNextAndroidAdbPort,
       StartCliAction ''Launching'' ''Searching for emu'', HasEmulator ''emu'',
       StartCliAction ''Launching'' ''Found device emu'',
       StartCliAction ''Launching'' ''Starting device emu'',
       StartEmulator ''emu'' 5572,
       StartCliAction ''Launching'' ''Waiting for device emu to boot'',
       PollDeviceStatus 5574,
       LaunchURLIntent ''http://10.0.2.2:3333/lwc/preview/c/helloWorld'' 5574,
       StopCliAction None], Inr ()) \<and>
   getNextAndroidAdbPort example_AndroidUtils = Inr 5572 \<and>
   startEmulator example_AndroidUtils ''emu'' 5572 = Inr 5574"
proof -
  let ?calls = "[FindRequiredEmulatorImages, GetSupportedDevices, GetNextAndroidAdbPort,
       StartCliAction ''Launching'' ''Searching for emu'', HasEmulator ''emu'',
       StartCliAction ''Launching'' ''Found device emu'',
       StartCliAction ''Launching'' ''Starting device emu'',
       StartEmulator ''emu'' 5572,
       StartCliAction ''Launching'' ''Waiting for device emu to boot'',
       PollDeviceStatus 5574,
       LaunchURLIntent ''http://10.0.2.2:3333/lwc/preview/c/helloWorld'' 5574,
       StopCliAction None]"
  have run: "AndroidLauncher_launchPreview example_AndroidUtils example_PreviewUtils ''emu''
     ''helloWorld'' ''/p'' None ''browser'' None ''3333'' = (?calls, Inr ())"
    by code_simp
  have next_port: "getNextAndroidAdbPort example_AndroidUtils = Inr 5572"
    by (simp add: example_AndroidUtils_def)
  have "LaunchURLIntent ''http://10.0.2.2:3333/lwc/preview/c/helloWorld'' 5574 \<in> set ?calls"
    "port_addressed (LaunchURLIntent ''http://10.0.2.2:3333/lwc/preview/c/helloWorld'' 5574) =
       Some 5574"
    by (simp_all add: port_addressed_def)
  with launchPreview_uses_reported_port [OF run] next_port
  have "startEmulator example_AndroidUtils ''emu'' 5572 = Inr 5574"
    by fastforce
  with run next_port show ?thesis by blast
qed

lemma android_url_call_origin:
  assumes "LaunchURLIntent url p \<in> set (fst (AndroidLauncher_launchPreview au pu emulatorName
      compName projectDir appBundlePath targetApp appConfig serverPort))"
  shows "\<exists>port. LaunchURLIntent url p \<in> set (fst (android_launch_target au pu compName
      projectDir appBundlePath targetApp appConfig serverPort port))"
proof -
  from assms obtain pack :: AndroidPackage and devices requested where
    "LaunchURLIntent url p \<in> set (fst (android_chain au pu emulatorName
        (if platformEmulatorImage pack = [] then ''default'' else platformEmulatorImage pack)
        (platformAPI pack) (first_element devices) (abi pack) requested compName projectDir
        appBundlePath targetApp appConfig serverPort))"
    unfolding AndroidLauncher_launchPreview_def Let_def
    by (auto simp add: run_simps)
  then obtain actualPort where
    "LaunchURLIntent url p \<in> set (fst (android_after_start au pu emulatorName compName
        projectDir appBundlePath targetApp appConfig serverPort actualPort))"
    unfolding android_chain_def
    by (auto simp add: run_simps split: if_splits)
  then show ?thesis
    unfolding android_after_start_def Let_def
    by (auto simp add: run_simps)
qed

lemma android_fulfils_launch_target:
  assumes "snd (AndroidLauncher_launchPreview au pu emulatorName compName projectDir
      appBundlePath targetApp appConfig serverPort) = Inr ()"
  shows "\<exists>port. set (fst (android_launch_target au pu compName projectDir appBundlePath
            targetApp appConfig serverPort port)) \<subseteq>
          set (fst (AndroidLauncher_launchPreview au pu emulatorName compName projectDir
            appBundlePath targetApp appConfig serverPort))"
proof -
  from assms obtain pack devices requested where
    f: "findRequiredEmulatorImages au = Inr pack"
    and d: "getSupportedDevices au = Inr devices"
    and r: "getNextAndroidAdbPort au = Inr requested"
    and ch: "snd (android_chain au pu emulatorName
        (if platformEmulatorImage pack = [] then ''default'' else platformEmulatorImage pack)
        (platformAPI pack) (first_element devices) (abi pack) requested compName projectDir
        appBundlePath targetApp appConfig serverPort) = Inr ()"
    unfolding AndroidLauncher_launchPreview_def Let_def
    by (auto simp add: run_simps)
  from ch obtain result u actualPort where
    h: "hasEmulator au emulatorName = Inr result"
    and cr: "snd (if \<not> result
        then and_then
               (effect (StartCliAction ''Launching'' (''Creating device '' @ emulatorName)))
               (\<lambda>_. call (CreateNewVirtualDevice emulatorName
                             (if platformEmulatorImage pack = [] then ''default''
                              else platformEmulatorImage pack)
                             (platformAPI pack) (first_element devices) (abi pack))
                       (createNewVirtualDevice au emulatorName
                          (if platformEmulatorImage pack = [] then ''default''
                           else platformEmulatorImage pack)
                          (platformAPI pack) (first_element devices) (abi pack)))
        else effect (StartCliAction ''Launching'' (''Found device '' @ emulatorName))) = Inr u"
    and s: "startEmulator au emulatorName requested = Inr actualPort"
    and a: "snd (android_after_start au pu emulatorName compName projectDir appBundlePath
      targetApp appConfig serverPort actualPort) = Inr ()"
    unfolding android_chain_def
    by (auto simp add: run_simps)
  from a have polled: "pollDeviceStatus au actualPort = Inr ()"
    by (auto simp add: android_after_start_def Let_def run_simps)
  have "x \<in> set (fst (AndroidLauncher_launchPreview au pu emulatorName compName projectDir
            appBundlePath targetApp appConfig serverPort))"
    if "x \<in> set (fst (android_launch_target au pu compName projectDir appBundlePath
            targetApp appConfig serverPort actualPort))" for x
    using that f d r h cr s polled
    unfolding AndroidLauncher_launchPreview_def android_chain_def android_after_start_def
      Let_def
    by (auto simp add: run_simps)
  then show ?thesis by blast
qed

lemma android_launch_target_url:
  assumes "isTargetingBrowser pu targetApp" "useLwcServerForPreviewing pu targetApp appConfig"
  shows "fst (android_launch_target au pu compName projectDir appBundlePath targetApp
           appConfig serverPort emulatorPort) =
         [LaunchURLIntent
            (''http://10.0.2.2'' @ '':'' @ serverPort @ ''/lwc/preview/'' @
             prefixRouteIfNeeded pu compName)
            emulatorPort]"
  using assms by (simp add: android_launch_target_def Let_def call_def template_string_def)

lemma ios_launch_target_url:
  assumes "isTargetingBrowser pu targetApp" "useLwcServerForPreviewing pu targetApp appConfig"
  shows "\<exists>status.
         fst (ios_launch_target iu pu compName projectDir appBundlePath targetApp appConfig
           serverPort targetingLwrServer deviceUDID) =
         [UpdateCliAction status,
          LaunchURLInBootedSimulator deviceUDID
            (if targetingLwrServer then ''http://localhost'' @ '':'' @ serverPort
             else ''http://localhost'' @ '':'' @ serverPort @ ''/lwc/preview/'' @
                  prefixRouteIfNeeded pu compName)]"
  using assms
  by (simp add: ios_launch_target_def Let_def call_def effect_def and_then_def
      template_string_def)

lemma ios_url_call_origin:
  assumes "LaunchURLInBootedSimulator u url \<in> set (fst (IOSLauncher_launchPreview iu pu
      simulatorName compName projectDir appBundlePath targetApp appConfig serverPort
      targetingLwrServer))"
  shows "\<exists>deviceUDID. LaunchURLInBootedSimulator u url \<in> set (fst (ios_launch_target iu pu
      compName projectDir appBundlePath targetApp appConfig serverPort targetingLwrServer
      deviceUDID))"
proof -
  from assms obtain deviceUDID where
    "LaunchURLInBootedSimulator u url \<in> set (fst (ios_chain iu pu compName projectDir
        appBundlePath targetApp appConfig serverPort targetingLwrServer deviceUDID))"
    unfolding IOSLauncher_launchPreview_def
    by (auto simp add: run_simps split: if_splits)
  then show ?thesis
    unfolding ios_chain_def
    by (auto simp add: run_simps)
qed

lemma ios_fulfils_launch_target:
  assumes "snd (IOSLauncher_launchPreview iu pu simulatorName compName projectDir
      appBundlePath targetApp appConfig serverPort targetingLwrServer) = Inr ()"
  shows "\<exists>deviceUDID. set (fst (ios_launch_target iu pu compName projectDir appBundlePath
            targetApp appConfig serverPort targetingLwrServer deviceUDID)) \<subseteq>
          set (fst (IOSLauncher_launchPreview iu pu simulatorName compName projectDir
            appBundlePath targetApp appConfig serverPort targetingLwrServer))"
proof -
  from assms obtain availableDevices supportedRuntimes currentSimulatorUDID deviceUDID where
    d: "ios_getSupportedDevices iu = Inr availableDevices"
    and r: "ios_getSupportedRuntimes iu = Inr supportedRuntimes"
    and g: "getSimulator iu simulatorName = Inr currentSimulatorUDID"
    and u: "snd (if currentSimulatorUDID = None \<or> currentSimulatorUDID = Some []
        then and_then
               (effect (UpdateCliAction (getMessage iu ''createDeviceStatus'' [simulatorName])))
               (\<lambda>_. call (CreateNewDevice simulatorName (first_element availableDevices)
                             (first_element supportedRuntimes))
                       (createNewDevice iu simulatorName (first_element availableDevices)
                          (first_element supportedRuntimes)))
        else and_then
               (effect (UpdateCliAction (getMessage iu ''foundDeviceStatus'' [simulatorName])))
               (\<lambda>_. ([], Inr (template_string currentSimulatorUDID)))) = Inr deviceUDID"
    and ch: "snd (ios_chain iu pu compName projectDir appBundlePath targetApp appConfig
        serverPort targetingLwrServer deviceUDID) = Inr ()"
    unfolding IOSLauncher_launchPreview_def
    by (auto simp add: run_simps)
  from ch have b: "bootDevice iu deviceUDID True = Inr ()" "launchSimulatorApp iu = Inr ()"
    unfolding ios_chain_def by (auto simp add: run_simps)
  have "x \<in> set (fst (IOSLauncher_launchPreview iu pu simulatorName compName projectDir
            appBundlePath targetApp appConfig serverPort targetingLwrServer))"
    if "x \<in> set (fst (ios_launch_target iu pu compName projectDir appBundlePath
            targetApp appConfig serverPort targetingLwrServer deviceUDID))" for x
    using that d r g u b
    unfolding IOSLauncher_launchPreview_def ios_chain_def
    by (auto simp add: run_simps)
  then show ?thesis by blast
qed

text \<open>
  C9, as stated: with the browser as target and the server in use, the launch URL
  is the host, the port and the route \<^verbatim>\<open>/lwc/preview/<component route>\<close>. The iOS
  launcher has a further argument, \<^verbatim>\<open>targetingLwrServer\<close>: when it is set, the URL
  is the host and the port alone.
\<close>

theorem ios_lwr_url_counterexample:
  "isTargetingBrowser example_PreviewUtils ''browser'' \<and>
   useLwcServerForPreviewing example_PreviewUtils ''browser'' None \<and>
   IOSLauncher_launchPreview example_IOSUtils example_PreviewUtils ''sim'' ''helloWorld'' ''/p''
     None ''browser'' None ''3333'' True =
     ([IOSGetSupportedDevices, IOSGetSupportedRuntimes, GetSimulator ''sim'',
       StartCliActionIOS ''startPreviewAction'' ''searchForDeviceStatus'',
       UpdateCliAction ''foundDeviceStatus'', UpdateCliAction ''startDeviceStatus'',
       BootDevice ''B1'' True, LaunchSimulatorApp, UpdateCliAction ''launchBrowserStatus'',
       LaunchURLInBootedSimulator ''B1'' ''http://localhost:3333'', StopCliActionIOS None],
      Inr ()) \<and>
   \<not> prefix ''http://localhost:3333/lwc/preview/'' ''http://localhost:3333''"
  by code_simp

text \<open>
  C9, amended: when the preview target is the browser and the server is used,
  the Android launcher launches the URL \<^verbatim>\<open>http://10.0.2.2:<port>/lwc/preview/<route>\<close>
  and the iOS launcher the URL \<^verbatim>\<open>http://localhost:<port>/lwc/preview/<route>\<close>,
  where \<^verbatim>\<open><port>\<close> is the port of the server and \<^verbatim>\<open><route>\<close> is
  \<^verbatim>\<open>prefixRouteIfNeeded\<close> of the component name, except that the iOS launcher
  launches \<^verbatim>\<open>http://localhost:<port>\<close> when it targets the LWR server. No other
  URL is launched; a run that fulfils has launched that URL; the two hosts
  differ.
\<close>

theorem browser_launch_url:
  assumes "isTargetingBrowser pu targetApp"
    and "useLwcServerForPreviewing pu targetApp appConfig"
  shows "(\<forall>url p.
            LaunchURLIntent url p \<in> set (fst (AndroidLauncher_launchPreview au pu emulatorName
              compName projectDir appBundlePath targetApp appConfig serverPort)) \<longrightarrow>
            url = ''http://10.0.2.2'' @ '':'' @ serverPort @ ''/lwc/preview/'' @
                  prefixRouteIfNeeded pu compName) \<and>
         (snd (AndroidLauncher_launchPreview au pu emulatorName compName projectDir
            appBundlePath targetApp appConfig serverPort) = Inr () \<longrightarrow>
          (\<exists>p. LaunchURLIntent
                  (''http://10.0.2.2'' @ '':'' @ serverPort @ ''/lwc/preview/'' @
                   prefixRouteIfNeeded pu compName) p
                \<in> set (fst (AndroidLauncher_launchPreview au pu emulatorName compName
                     projectDir appBundlePath targetApp appConfig serverPort)))) \<and>
         (\<forall>u url.
            LaunchURLInBootedSimulator u url \<in> set (fst (IOSLauncher_launchPreview iu pu
              simulatorName compName projectDir appBundlePath targetApp appConfig serverPort
              targetingLwrServer)) \<longrightarrow>
            url = (if targetingLwrServer then ''http://localhost'' @ '':'' @ serverPort
                   else ''http://localhost'' @ '':'' @ serverPort @ ''/lwc/preview/'' @
                        prefixRouteIfNeeded pu compName)) \<and>
         (snd (IOSLauncher_launchPreview iu pu simulatorName compName projectDir appBundlePath
            targetApp appConfig serverPort targetingLwrServer) = Inr () \<longrightarrow>
          (\<exists>u. LaunchURLInBootedSimulator u
                  (if targetingLwrServer then ''http://localhost'' @ '':'' @ serverPort
                   else ''http://localhost'' @ '':'' @ serverPort @ ''/lwc/preview/'' @
                        prefixRouteIfNeeded pu compName)
                \<in> set (fst (IOSLauncher_launchPreview iu pu simulatorName compName projectDir
                     appBundlePath targetApp appConfig serverPort targetingLwrServer)))) \<and>
         ''http://10.0.2.2'' \<noteq> ''http://localhost''"
proof -
  note a_url = android_launch_target_url [OF assms]
  have android_only: "url = ''http://10.0.2.2'' @ '':'' @ serverPort @ ''/lwc/preview/'' @
                  prefixRouteIfNeeded pu compName"
    if "LaunchURLIntent url p \<in> set (fst (AndroidLauncher_launchPreview au pu emulatorName
              compName projectDir appBundlePath targetApp appConfig serverPort))" for url p
    using android_url_call_origin [OF that] by (auto simp add: a_url)
  have android_some: "\<exists>p. LaunchURLIntent
                  (''http://10.0.2.2'' @ '':'' @ serverPort @ ''/lwc/preview/'' @
                   prefixRouteIfNeeded pu compName) p
                \<in> set (fst (AndroidLauncher_launchPreview au pu emulatorName compName
                     projectDir appBundlePath targetApp appConfig serverPort))"
    if "snd (AndroidLauncher_launchPreview au pu emulatorName compName projectDir
            appBundlePath targetApp appConfig serverPort) = Inr ()"
    using android_fulfils_launch_target [OF that] by (auto simp add: a_url)
  have ios_only: "url = (if targetingLwrServer then ''http://localhost'' @ '':'' @ serverPort
                   else ''http://localhost'' @ '':'' @ serverPort @ ''/lwc/preview/'' @
                        prefixRouteIfNeeded pu compName)"
    if "LaunchURLInBootedSimulator u url \<in> set (fst (IOSLauncher_launchPreview iu pu
              simulatorName compName projectDir appBundlePath targetApp appConfig serverPort
              targetingLwrServer))" for u url
  proof -
    from ios_url_call_origin [OF that] obtain deviceUDID where
      m: "LaunchURLInBootedSimulator u url \<in> set (fst (ios_launch_target iu pu compName
        projectDir appBundlePath targetApp appConfig serverPort targetingLwrServer deviceUDID))"
      by blast
    from ios_launch_target_url [OF assms, of iu compName projectDir appBundlePath serverPort
        targetingLwrServer deviceUDID] m
    show ?thesis by auto
  qed
  have ios_some: "\<exists>u. LaunchURLInBootedSimulator u
                  (if targetingLwrServer then ''http://localhost'' @ '':'' @ serverPort
                   else ''http://localhost'' @ '':'' @ serverPort @ ''/lwc/preview/'' @
                        prefixRouteIfNeeded pu compName)
                \<in> set (fst (IOSLauncher_launchPreview iu pu simulatorName compName projectDir
                     appBundlePath targetApp appConfig serverPort targetingLwrServer))"
    if "snd (IOSLauncher_launchPreview iu pu simulatorName compName projectDir appBundlePath
            targetApp appConfig serverPort targetingLwrServer) = Inr ()"
  proof -
    from ios_fulfils_launch_target [OF that] obtain deviceUDID where
      sub: "set (fst (ios_launch_target iu pu compName projectDir appBundlePath
            targetApp appConfig serverPort targetingLwrServer deviceUDID)) \<subseteq>
          set (fst (IOSLauncher_launchPreview iu pu simulatorName compName projectDir
            appBundlePath targetApp appConfig serverPort targetingLwrServer))"
      by blast
    from ios_launch_target_url [OF assms, of iu compName projectDir appBundlePath serverPort
        targetingLwrServer deviceUDID] sub
    show ?thesis by (intro exI [of _ deviceUDID]) auto
  qed
  have hosts: "''http://10.0.2.2'' \<noteq> ''http://localhost''"
    by simp
  from android_only android_some ios_only ios_some hosts show ?thesis
    by blast
qed

theorem browser_launch_url_witness:
  "isTargetingBrowser example_PreviewUtils ''browser'' \<and>
   useLwcServerForPreviewing example_PreviewUtils ''browser'' None \<and>
   snd (AndroidLauncher_launchPreview example_AndroidUtils example_PreviewUtils ''emu''
     ''helloWorld'' ''/p'' None ''browser'' None ''3333'') = Inr () \<and>
   (\<exists>p. LaunchURLIntent ''http://10.0.2.2:3333/lwc/preview/c/helloWorld'' p
      \<in> set (fst (AndroidLauncher_launchPreview example_AndroidUtils example_PreviewUtils
           ''emu'' ''helloWorld'' ''/p'' None ''browser'' None ''3333''))) \<and>
   snd (IOSLauncher_launchPreview example_IOSUtils example_PreviewUtils ''sim''
     ''helloWorld'' ''/p'' None ''browser'' None ''3333'' False) = Inr () \<and>
   (\<exists>u. LaunchURLInBootedSimulator u ''http://localhost:3333/lwc/preview/c/helloWorld''
      \<in> set (fst (IOSLauncher_launchPreview example_IOSUtils example_PreviewUtils ''sim''
           ''helloWorld'' ''/p'' None ''browser'' None ''3333'' False)))"
proof -
  have b: "isTargetingBrowser example_PreviewUtils ''browser''"
    and s: "useLwcServerForPreviewing example_PreviewUtils ''browser'' None"
    and r: "prefixRouteIfNeeded example_PreviewUtils ''helloWorld'' = ''c/helloWorld''"
    by (simp_all add: example_PreviewUtils_def)
  have fa: "snd (AndroidLauncher_launchPreview example_AndroidUtils example_PreviewUtils ''emu''
     ''helloWorld'' ''/p'' None ''browser'' None ''3333'') = Inr ()"
    by code_simp
  have fi: "snd (IOSLauncher_launchPreview example_IOSUtils example_PreviewUtils ''sim''
     ''helloWorld'' ''/p'' None ''browser'' None ''3333'' False) = Inr ()"
    by code_simp
  note t = browser_launch_url [OF b s, where au = example_AndroidUtils and emulatorName = "''emu''"
      and compName = "''helloWorld''" and projectDir = "''/p''" and appBundlePath = None
      and serverPort = "''3333''" and iu = example_IOSUtils and simulatorName = "''sim''"
      and targetingLwrServer = False]
  from t fa r have "\<exists>p. LaunchURLIntent ''http://10.0.2.2:3333/lwc/preview/c/helloWorld'' p
      \<in> set (fst (AndroidLauncher_launchPreview example_AndroidUtils example_PreviewUtils
           ''emu'' ''helloWorld'' ''/p'' None ''browser'' None ''3333''))"
    by simp
  moreover from t fi r
  have "\<exists>u. LaunchURLInBootedSimulator u ''http://localhost:3333/lwc/preview/c/helloWorld''
      \<in> set (fst (IOSLauncher_launchPreview example_IOSUtils example_PreviewUtils ''sim''
           ''helloWorld'' ''/p'' None ''browser'' None ''3333'' False))"
    by simp
  ultimately show ?thesis using b s fa fi by blast
qed

end
